theory Spec2Isabelle
  imports Complex_Main "HOL-Library.Word"
begin

section \<open>Data model of the syllable detector\<close>

text \<open>
  The development embeds \<^verbatim>\<open>syllable_detector.c\<close> (the multi-feature version) and its
  public header. Conventions of the embedding:
  \<^item> C \<^verbatim>\<open>float\<close> and \<^verbatim>\<open>double\<close> values are modelled by \<^typ>\<open>real\<close>: rounding, infinities
    and NaN are not represented. Where the C code can divide by zero the case is either
    written out or excluded by a hypothesis of the theorem concerned.
  \<^item> \<^verbatim>\<open>uint64_t\<close> is \<^typ>\<open>64 word\<close> (wrap-around included); C \<^verbatim>\<open>int\<close> is \<^typ>\<open>int\<close>
    (signed overflow is undefined in C and is not modelled); array indices that only
    count upwards from zero are \<^typ>\<open>nat\<close>; \<^verbatim>\<open>int\<close> flags used as truth values are
    \<^typ>\<open>bool\<close>.
  \<^item> The DSP primitives (AGC, zero-frequency filter, band-pass biquad, envelope
    follower, spectral flux, high-frequency energy, MFCC, wavelet bank) are external to
    the detector logic. What they return for one input sample is collected in a
    \<open>Frame\<close>; the detector is a function of the sequence of frames.
\<close>

datatype SyllableOnsetType = ONSET_TYPE_VOICED | ONSET_TYPE_UNVOICED | ONSET_TYPE_MIXED

datatype DetectorState = STATE_IDLE | STATE_ONSET_RISING | STATE_NUCLEUS | STATE_COOLDOWN

text \<open>
  \<^verbatim>\<open>SyllableConfig\<close>. The fields that only parameterise the construction of the DSP
  primitives (\<^verbatim>\<open>zff_trend_window_ms\<close>, \<^verbatim>\<open>peak_rate_band_min/max\<close>, \<^verbatim>\<open>fft_size_ms\<close>,
  \<^verbatim>\<open>hop_size_ms\<close>, \<^verbatim>\<open>high_freq_cutoff_hz\<close>, the allocator pair) are left out.
\<close>

record SyllableConfig =
  sample_rate :: int
  min_syllable_dist_ms :: real
  threshold_peak_rate :: real
  adaptive_peak_rate_k :: real
  adaptive_peak_rate_tau_ms :: real
  voiced_hold_ms :: real
  hysteresis_on_factor :: real
  hysteresis_off_factor :: real
  context_size :: int
  enable_spectral_flux :: bool
  enable_high_freq_energy :: bool
  enable_mfcc_delta :: bool
  enable_wavelet :: bool
  weight_peak_rate :: real
  weight_spectral_flux :: real
  weight_high_freq :: real
  weight_mfcc_delta :: real
  weight_wavelet :: real
  weight_voiced_bonus :: real
  fusion_blend_alpha :: real
  unvoiced_onset_threshold :: real
  allow_unvoiced_onsets :: bool
  enable_agc :: bool
  realtime_mode :: bool
  calibration_duration_ms :: real
  snr_threshold_db :: real

record SyllableEvent =
  timestamp_samples :: "64 word"
  time_seconds :: real
  peak_rate :: real
  pr_slope :: real
  energy :: real
  f0 :: real
  delta_f0 :: real
  duration_s :: real
  spectral_flux :: real
  high_freq_energy :: real
  mfcc_delta :: real
  wavelet_score :: real
  fusion_score :: real
  onset_type :: SyllableOnsetType
  prominence_score :: real
  is_accented :: bool

record BufferedEvent =
  event :: SyllableEvent
  is_ready :: bool

record FeatureStats =
  mean :: real
  var :: real
  max_val :: real
  alpha :: real
  sample_count :: int

text \<open>
  \<^verbatim>\<open>RealtimeCalibration\<close>; its \<^verbatim>\<open>sample_count\<close> is named \<open>cal_sample_count\<close> here
  because \<open>FeatureStats\<close> has a field of the same name. \<open>buf\<close> is the
  \<^verbatim>\<open>float buf[RT_NUM_FEATURES][RT_BUF_SIZE]\<close> array, one row per feature.
\<close>

record RealtimeCalibration =
  is_calibrating :: bool
  cal_sample_count :: int
  target_samples :: int
  buf :: "real list list"
  buf_idx :: nat
  gamma :: real
  thresh :: "real list"

text \<open>
  \<^verbatim>\<open>struct SyllableDetector\<close>. The pointers to the optional DSP modules are modelled by
  the flags \<open>has_spectral_flux\<close>, \<open>has_high_freq_energy\<close>, \<open>has_mfcc\<close> and
  \<open>has_wavelet\<close> (true when the pointer is not \<^verbatim>\<open>NULL\<close>). Left out are the internal
  states of the DSP primitives and the fields that the detector writes but never reads
  (\<^verbatim>\<open>peak_rate_accum\<close>, \<^verbatim>\<open>last_zff_slope\<close>, \<^verbatim>\<open>prev_smoothed_f0\<close>, \<^verbatim>\<open>f0_derivative\<close>,
  \<^verbatim>\<open>f0_baseline\<close>, \<^verbatim>\<open>f0_baseline_alpha\<close>, \<^verbatim>\<open>f0_semitone_diff\<close>, \<^verbatim>\<open>fusion_history\<close> with
  its index, count, median and MAD, \<^verbatim>\<open>unvoiced_counter\<close>).
\<close>

record SyllableDetector =
  config :: SyllableConfig
  total_samples :: "64 word"
  has_spectral_flux :: bool
  has_high_freq_energy :: bool
  has_mfcc :: bool
  has_wavelet :: bool
  prev_env :: real
  current_peak_rate :: real
  last_zff_val :: real
  last_epoch_samples_ago :: int
  current_f0 :: real
  smoothed_f0 :: real
  min_f0_since_peak :: real
  f0_has_risen :: bool
  f0_jump_counter :: int
  voicing_counter :: int
  is_voiced :: bool
  voiced_hold_samples :: int
  current_energy :: real
  energy_floor :: real
  prev_sample :: real
  prev_prev_sample :: real
  current_teo :: real
  teo_mean :: real
  teo_var :: real
  short_energy :: real
  long_energy :: real
  current_ler :: real
  adaptive_enabled :: bool
  adaptive_mean :: real
  adaptive_var :: real
  adaptive_alpha :: real
  stats_peak_rate :: FeatureStats
  stats_spectral_flux :: FeatureStats
  stats_high_freq :: FeatureStats
  stats_mfcc_delta :: FeatureStats
  stats_wavelet :: FeatureStats
  current_spectral_flux :: real
  current_high_freq_energy :: real
  current_mfcc_delta :: real
  current_wavelet_score :: real
  current_fusion_score :: real
  state :: DetectorState
  state_timer :: int
  max_onset_rising_samples :: int
  wip_event :: SyllableEvent
  max_peak_rate_in_syllable :: real
  max_fusion_score_in_syllable :: real
  energy_accum :: real
  onset_timestamp :: "64 word"
  last_event_samples :: "64 word"
  peak_sample_offset :: int
  current_onset_type :: SyllableOnsetType
  event_buffer :: "BufferedEvent list"
  buf_write_idx :: nat
  buf_read_idx :: nat
  buf_count :: int
  rt_cal :: RealtimeCalibration

text \<open>
  What the DSP primitives deliver for one input sample: the sample after the optional
  AGC, the output of \<^verbatim>\<open>zff_process\<close>, the envelope of the band-passed sample, the last
  value of a spectral-flux or MFCC frame when the sample completes one (\<open>None\<close> when
  \<^verbatim>\<open>n_flux\<close> or \<^verbatim>\<open>n_mfcc\<close> is 0), the high-frequency energy, the wavelet score, and
  \<^verbatim>\<open>spectral_flux_get_flatness_weber\<close>.
\<close>

record Frame =
  in_sample :: real
  zff_out :: real
  env_out :: real
  flux_out :: "real option"
  hfe_out :: real
  mfcc_out :: "real option"
  wavelet_out :: real
  flatness_weber :: real

definition PROMINENCE_BUFFER_SIZE :: nat where
  "PROMINENCE_BUFFER_SIZE = 16"

definition RT_NUM_FEATURES :: nat where
  "RT_NUM_FEATURES = 6"

definition RT_BUF_SIZE :: nat where
  "RT_BUF_SIZE = 100"

text \<open>The C conversion \<^verbatim>\<open>(int)x\<close> of a floating-point value truncates towards zero.\<close>

definition c_int :: "real \<Rightarrow> int" where
  "c_int x = (if 0 \<le> x then \<lfloor>x\<rfloor> else \<lceil>x\<rceil>)"

text \<open>
  The conversion \<^verbatim>\<open>(int)u\<close> of a \<^verbatim>\<open>uint64_t\<close>: the low 32 bits, read as two's
  complement.
\<close>

definition c_int_of_u64 :: "64 word \<Rightarrow> int" where
  "c_int_of_u64 w = sint (ucast w :: 32 word)"

section \<open>Feature statistics\<close>

text \<open>
  \<^verbatim>\<open>init_feature_stats\<close>. A zero product \<^verbatim>\<open>tau_s * sample_rate\<close> makes the C quotient
  \<^verbatim>\<open>+inf\<close>, which the clamp turns into 1.
\<close>

definition init_feature_stats :: "real \<Rightarrow> int \<Rightarrow> FeatureStats" where
  "init_feature_stats tau_ms sr =
     (let tau_s = tau_ms * 0.001;
          a = (if tau_s * real_of_int sr = 0 then 1 else 1 / (tau_s * real_of_int sr))
      in \<lparr>mean = 0, var = 0, max_val = 0,
          alpha = (if a > 1 then 1 else a), sample_count = 0\<rparr>)"

definition update_feature_stats :: "FeatureStats \<Rightarrow> real \<Rightarrow> FeatureStats" where
  "update_feature_stats stats v =
     (let delta = v - mean stats;
          m = mean stats + alpha stats * delta;
          vr = (1 - alpha stats) * (var stats + alpha stats * delta * delta)
      in stats\<lparr>mean := m, var := vr,
               max_val := (if v > max_val stats then v else max_val stats),
               sample_count := (if sample_count stats < 100000
                                then sample_count stats + 1 else sample_count stats)\<rparr>)"

definition fast_sigmoid :: "real \<Rightarrow> real" where
  "fast_sigmoid x = x / (1 + \<bar>x\<bar>)"

text \<open>
  \<^verbatim>\<open>normalize_feature_sigmoid\<close> returns the normalised value and, through its pointer
  argument, the confidence; the model returns the pair.
\<close>

definition normalize_feature_sigmoid :: "FeatureStats \<Rightarrow> real \<Rightarrow> real \<times> real" where
  "normalize_feature_sigmoid stats v =
     (let sd = sqrt (var stats)
      in if sd < 0.000001 \<or> sample_count stats < 100 then (0.5, 0.1)
         else (let z = (v - mean stats) / sd
               in ((fast_sigmoid (z - 1) + 1) * 0.5,
                   min 1 (real_of_int (sample_count stats) / 1000))))"

definition normalize_feature :: "FeatureStats \<Rightarrow> real \<Rightarrow> real" where
  "normalize_feature stats v =
     (let sd0 = sqrt (var stats);
          sd = (if sd0 < 0.000001 then 0.000001 else sd0);
          z0 = (v - mean stats) / sd;
          z1 = (if z0 < 0 then 0 else z0);
          z = (if z1 > 4 then 4 else z1)
      in z / 4)"

section \<open>Realtime calibration and realtime fusion\<close>

text \<open>
  \<^verbatim>\<open>finalize_rt_calibration\<close>: \<open>n\<close> frames of the buffer are used, the mean and the
  variance are taken from the running sums, and the threshold of feature \<open>k\<close> is
  \<open>mean + gamma * std\<close>, not below \<open>10\<^sup>-\<^sup>6\<close>. With fewer than 10 frames every threshold
  is the constant 0.001.
\<close>

definition rt_threshold :: "real list \<Rightarrow> nat \<Rightarrow> real \<Rightarrow> real" where
  "rt_threshold row n g =
     (if n < 10 then 0.001
      else (let sum = (\<Sum>i\<leftarrow>[0..<n]. row ! i);
                sum_sq = (\<Sum>i\<leftarrow>[0..<n]. row ! i * row ! i);
                mean = sum / real n;
                var = sum_sq / real n - mean * mean;
                std = (if var > 0 then sqrt var else 0);
                t = mean + g * std
            in if t < 0.000001 then 0.000001 else t))"

definition finalize_rt_calibration :: "SyllableDetector \<Rightarrow> SyllableDetector" where
  "finalize_rt_calibration d =
     (let cal = rt_cal d;
          n = (if buf_idx cal < RT_BUF_SIZE then buf_idx cal else RT_BUF_SIZE);
          g = 10 powr (snr_threshold_db (config d) / 10)
      in d\<lparr>rt_cal := cal\<lparr>gamma := g,
                            thresh := map (\<lambda>k. rt_threshold (buf cal ! k) n g)
                                          [0..<RT_NUM_FEATURES],
                            is_calibrating := False\<rparr>\<rparr>)"

definition update_rt_calibration :: "SyllableDetector \<Rightarrow> SyllableDetector" where
  "update_rt_calibration d =
     (let cal = rt_cal d;
          idx = buf_idx cal mod RT_BUF_SIZE;
          b = buf cal;
          b' = [(b ! 0)[idx := current_energy d],
                (b ! 1)[idx := current_peak_rate d],
                (b ! 2)[idx := current_spectral_flux d],
                (b ! 3)[idx := current_high_freq_energy d],
                (b ! 4)[idx := current_mfcc_delta d],
                (b ! 5)[idx := current_wavelet_score d]];
          cal' = cal\<lparr>buf := b', buf_idx := buf_idx cal + 1,
                      cal_sample_count := cal_sample_count cal + 1\<rparr>;
          d' = d\<lparr>rt_cal := cal'\<rparr>
      in if cal_sample_count cal' \<ge> target_samples cal'
         then finalize_rt_calibration d' else d')"

text \<open>The six values that realtime calibration and realtime fusion read, in order.\<close>

definition rt_features :: "SyllableDetector \<Rightarrow> real list" where
  "rt_features d =
     [current_energy d, current_peak_rate d, current_spectral_flux d,
      current_high_freq_energy d, current_mfcc_delta d, current_wavelet_score d]"

text \<open>
  \<^verbatim>\<open>compute_fusion_realtime\<close>. The loop over the features carries \<open>active\<close> and
  \<open>log_sum\<close> (\<^verbatim>\<open>max_r\<close> is computed by the C code and never used).
\<close>

definition rt_accumulate :: "real list \<Rightarrow> real list \<Rightarrow> nat \<times> real \<Rightarrow> nat \<Rightarrow> nat \<times> real" where
  "rt_accumulate f th acc k =
     (let r = f ! k / th ! k
      in if r > 1 then (fst acc + 1, snd acc + ln r) else acc)"

definition voiced_conf :: "SyllableDetector \<Rightarrow> real" where
  "voiced_conf d = min 1 (real_of_int (voicing_counter d) / 5)"

definition compute_fusion_realtime :: "SyllableDetector \<Rightarrow> real" where
  "compute_fusion_realtime d =
     (let cal = rt_cal d
      in if is_calibrating cal then 0
         else (let f = rt_features d;
                   acc = foldl (rt_accumulate f (thresh cal)) (0, 0) [0..<RT_NUM_FEATURES];
                   vc = voiced_conf d;
                   acc' = (if vc > 0.5 then (fst acc + 1, snd acc + ln (1 + vc)) else acc);
                   active = fst acc';
                   log_sum = snd acc'
               in if active = 0 then 0
                  else (let geo_mean = exp (log_sum / real active)
                        in 1 - 1 / (1 + geo_mean * 0.5))))"

section \<open>Offline fusion\<close>

text \<open>
  \<^verbatim>\<open>compute_fusion_score\<close>, offline branch, in three parts: the weighted average with the
  accumulated weight total, the maximum over the enabled features, and the blend with
  the confidence penalty.
\<close>

definition fusion_w_total :: "SyllableDetector \<Rightarrow> real" where
  "fusion_w_total d =
     (let c = config d;
          w0 = weight_peak_rate c;
          w1 = (if has_spectral_flux d then w0 + weight_spectral_flux c else w0);
          w2 = (if has_high_freq_energy d then w1 + weight_high_freq c else w1);
          w3 = (if has_mfcc d then w2 + weight_mfcc_delta c else w2);
          w4 = (if has_wavelet d then w3 + weight_wavelet c else w3)
      in w4 + weight_voiced_bonus c)"

definition fusion_weighted_avg ::
  "SyllableDetector \<Rightarrow> real \<Rightarrow> real \<Rightarrow> real \<Rightarrow> real \<Rightarrow> real \<Rightarrow> real \<Rightarrow> real" where
  "fusion_weighted_avg d norm_pr norm_sf norm_hf norm_mfcc norm_wavelet voiced_bonus =
     (let c = config d;
          a0 = weight_peak_rate c * norm_pr;
          a1 = (if has_spectral_flux d then a0 + weight_spectral_flux c * norm_sf else a0);
          a2 = (if has_high_freq_energy d then a1 + weight_high_freq c * norm_hf else a1);
          a3 = (if has_mfcc d then a2 + weight_mfcc_delta c * norm_mfcc else a2);
          a4 = (if has_wavelet d then a3 + weight_wavelet c * norm_wavelet else a3);
          a5 = a4 + weight_voiced_bonus c * voiced_bonus;
          w_total = fusion_w_total d
      in if w_total > 0 then a5 / w_total else a5)"

definition fusion_max_feature ::
  "SyllableDetector \<Rightarrow> real \<Rightarrow> real \<Rightarrow> real \<Rightarrow> real \<Rightarrow> real \<Rightarrow> real" where
  "fusion_max_feature d norm_pr norm_sf norm_hf norm_mfcc norm_wavelet =
     (let m0 = norm_pr;
          m1 = (if has_spectral_flux d \<and> norm_sf > m0 then norm_sf else m0);
          m2 = (if has_high_freq_energy d \<and> norm_hf > m1 then norm_hf else m1);
          m3 = (if has_mfcc d \<and> norm_mfcc > m2 then norm_mfcc else m2)
      in if has_wavelet d \<and> norm_wavelet > m3 then norm_wavelet else m3)"

definition fusion_avg_confidence :: "SyllableDetector \<Rightarrow> real \<Rightarrow> real \<Rightarrow> real \<Rightarrow> real \<Rightarrow> real" where
  "fusion_avg_confidence d conf_pr conf_sf conf_hf conf_mfcc =
     (let s0 = (conf_pr, 1::nat);
          s1 = (if has_spectral_flux d then (fst s0 + conf_sf, snd s0 + 1) else s0);
          s2 = (if has_high_freq_energy d then (fst s1 + conf_hf, snd s1 + 1) else s1);
          s3 = (if has_mfcc d then (fst s2 + conf_mfcc, snd s2 + 1) else s2)
      in fst s3 / real (snd s3))"

definition compute_fusion_score :: "SyllableDetector \<Rightarrow> real" where
  "compute_fusion_score d =
     (if realtime_mode (config d) then compute_fusion_realtime d
      else (let energy_ratio = (if energy_floor d > 0.00000001
                                then current_energy d / energy_floor d else 1)
            in if current_energy d < 0.000001 \<or> energy_ratio < 1.5 then 0
               else (let pr = normalize_feature_sigmoid (stats_peak_rate d) (current_peak_rate d);
                         sf = (if has_spectral_flux d
                               then normalize_feature_sigmoid (stats_spectral_flux d)
                                      (current_spectral_flux d)
                               else (0, 0));
                         hf = (if has_high_freq_energy d
                               then normalize_feature_sigmoid (stats_high_freq d)
                                      (current_high_freq_energy d)
                               else (0, 0));
                         mf = (if has_mfcc d
                               then normalize_feature_sigmoid (stats_mfcc_delta d)
                                      (current_mfcc_delta d)
                               else (0, 0));
                         wv = (if has_wavelet d
                               then normalize_feature_sigmoid (stats_wavelet d)
                                      (current_wavelet_score d)
                               else (0, 0));
                         voiced_bonus = (if is_voiced d then 1 else 0);
                         weighted_avg = fusion_weighted_avg d (fst pr) (fst sf) (fst hf)
                                          (fst mf) (fst wv) voiced_bonus;
                         max_feature = fusion_max_feature d (fst pr) (fst sf) (fst hf)
                                          (fst mf) (fst wv);
                         a = fusion_blend_alpha (config d);
                         fusion = a * max_feature + (1 - a) * weighted_avg;
                         avg_confidence = fusion_avg_confidence d (snd pr) (snd sf) (snd hf)
                                            (snd mf)
                     in if avg_confidence < 0.3 then fusion * (0.5 + avg_confidence)
                        else fusion)))"

definition determine_onset_type :: "SyllableDetector \<Rightarrow> SyllableOnsetType" where
  "determine_onset_type d =
     (if is_voiced d
      then (let hf_norm = (if has_high_freq_energy d
                           then normalize_feature (stats_high_freq d) (current_high_freq_energy d)
                           else 0)
            in if hf_norm > 0.5 then ONSET_TYPE_MIXED else ONSET_TYPE_VOICED)
      else ONSET_TYPE_UNVOICED)"

section \<open>Prominence scoring over the event ring buffer\<close>

text \<open>
  The slots that \<^verbatim>\<open>calculate_delta_f0\<close> and \<^verbatim>\<open>calculate_prominence\<close> visit for a target
  slot, in the order of the C loop: for \<open>i = 1, \<dots>, context_size\<close> the slot \<open>i\<close> places
  before the target and the slot \<open>i\<close> places after it, both modulo the buffer size.
  (For \<open>i\<close> up to 16 the dividend of the first index is not negative, so the C
  remainder and \<open>mod\<close> agree.)
\<close>

definition ctx_indices :: "nat \<Rightarrow> int \<Rightarrow> nat list" where
  "ctx_indices target_idx ctx =
     concat (map (\<lambda>i. [nat ((int target_idx - i + int PROMINENCE_BUFFER_SIZE)
                                mod int PROMINENCE_BUFFER_SIZE),
                         nat ((int target_idx + i) mod int PROMINENCE_BUFFER_SIZE)])
                 [1..ctx])"

definition set_delta_f0 :: "SyllableDetector \<Rightarrow> nat \<Rightarrow> real \<Rightarrow> SyllableDetector" where
  "set_delta_f0 d target_idx v =
     (let target = event_buffer d ! target_idx
      in d\<lparr>event_buffer :=
             (event_buffer d)[target_idx := target\<lparr>event := (event target)\<lparr>delta_f0 := v\<rparr>\<rparr>]\<rparr>)"

text \<open>
  \<^verbatim>\<open>calculate_delta_f0\<close>: the difference between the target's \<open>f0\<close> and the median of
  the valid \<open>f0\<close> values of its ready neighbours. The C code sorts the gathered values
  with a bubble sort; \<open>sort\<close> yields the same sorted sequence.
\<close>

definition calculate_delta_f0 :: "SyllableDetector \<Rightarrow> nat \<Rightarrow> SyllableDetector" where
  "calculate_delta_f0 d target_idx =
     (let eb = event_buffer d;
          target = eb ! target_idx
      in if \<not> is_ready target then set_delta_f0 d target_idx 0
         else (let f0_values = map (\<lambda>j. f0 (event (eb ! j)))
                                 (filter (\<lambda>j. is_ready (eb ! j) \<and> f0 (event (eb ! j)) > 50)
                                    (ctx_indices target_idx (context_size (config d))))
               in if f0_values = [] \<or> f0 (event target) < 50 then set_delta_f0 d target_idx 0
                  else (let median_f0 = sort f0_values ! (length f0_values div 2)
                        in set_delta_f0 d target_idx (f0 (event target) - median_f0))))"

definition calculate_prominence :: "SyllableDetector \<Rightarrow> nat \<Rightarrow> real" where
  "calculate_prominence d target_idx =
     (let eb = event_buffer d;
          target = eb ! target_idx
      in if \<not> is_ready target then 0
         else (let ctx = map (\<lambda>j. event (eb ! j))
                           (filter (\<lambda>j. is_ready (eb ! j))
                              (ctx_indices target_idx (context_size (config d))));
                   count = length ctx
               in if count = 0 then 0.5
                  else (let local_avg_energy = (\<Sum>e\<leftarrow>ctx. energy e) / real count;
                            local_avg_pr = (\<Sum>e\<leftarrow>ctx. peak_rate e) / real count;
                            local_avg_dur = (\<Sum>e\<leftarrow>ctx. duration_s e) / real count;
                            local_avg_slope = (\<Sum>e\<leftarrow>ctx. pr_slope e) / real count;
                            local_avg_fusion = (\<Sum>e\<leftarrow>ctx. fusion_score e) / real count;
                            t = event target;
                            e_score = (if energy t > 0
                                       then energy t / (local_avg_energy + 0.0001) else 0);
                            pr_score = (if peak_rate t > 0
                                        then peak_rate t / (local_avg_pr + 0.0001) else 0);
                            d_score = (if duration_s t > 0
                                       then duration_s t / (local_avg_dur + 0.0001) else 0);
                            slope_score = (if pr_slope t > 0
                                           then pr_slope t / (local_avg_slope + 0.0001) else 0);
                            fusion_score_ratio =
                              (if fusion_score t > 0
                               then fusion_score t / (local_avg_fusion + 0.0001) else 0);
                            f0_bonus0 = (if delta_f0 t > 0 then delta_f0 t / 50 else 0);
                            f0_bonus = (if f0_bonus0 > 1 then 1 else f0_bonus0);
                            stress_integral = fusion_score t * duration_s t;
                            avg_stress = local_avg_fusion * local_avg_dur;
                            stress_ratio0 = (if avg_stress > 0.001
                                             then stress_integral / avg_stress else 1);
                            stress_ratio = (if stress_ratio0 > 3 then 3 else stress_ratio0);
                            f0_level_bonus =
                              (if f0 t > 60
                               then (let f0_norm = f0 t / 150
                                     in if f0_norm > 1.1
                                        then (let b = (f0_norm - 1) * 0.5
                                              in if b > 0.15 then 0.15 else b)
                                        else 0)
                               else 0)
                        in 0.10 * e_score + 0.10 * pr_score + 0.18 * d_score
                           + 0.08 * slope_score + 0.18 * fusion_score_ratio
                           + 0.13 * stress_ratio + 0.10 * (1 + f0_bonus)
                           + 0.13 * (1 + f0_level_bonus))))"

section \<open>Construction, reset and the realtime-mode API\<close>

text \<open>The all-zero values that \<^verbatim>\<open>memset\<close> leaves in an event and in the calibration state.\<close>

definition zero_event :: SyllableEvent where
  "zero_event =
     \<lparr>timestamp_samples = 0, time_seconds = 0, peak_rate = 0, pr_slope = 0, energy = 0,
      f0 = 0, delta_f0 = 0, duration_s = 0, spectral_flux = 0, high_freq_energy = 0,
      mfcc_delta = 0, wavelet_score = 0, fusion_score = 0, onset_type = ONSET_TYPE_VOICED,
      prominence_score = 0, is_accented = False\<rparr>"

definition zero_stats :: FeatureStats where
  "zero_stats = \<lparr>mean = 0, var = 0, max_val = 0, alpha = 0, sample_count = 0\<rparr>"

definition zero_cal :: RealtimeCalibration where
  "zero_cal =
     \<lparr>is_calibrating = False, cal_sample_count = 0, target_samples = 0,
      buf = replicate RT_NUM_FEATURES (replicate RT_BUF_SIZE 0), buf_idx = 0, gamma = 0,
      thresh = replicate RT_NUM_FEATURES 0\<rparr>"

text \<open>
  \<^verbatim>\<open>syllable_reset\<close>, restricted to the fields of the model (the resets of the band-pass
  filter, the envelope follower, the zero-frequency filter and the spectral modules act
  on DSP state outside the model).
\<close>

definition syllable_reset :: "SyllableDetector \<Rightarrow> SyllableDetector" where
  "syllable_reset d =
     (let tau = adaptive_peak_rate_tau_ms (config d);
          sr = sample_rate (config d)
      in d\<lparr>total_samples := 0, prev_env := 0, state := STATE_IDLE, is_voiced := False,
            voicing_counter := 0, buf_read_idx := 0, buf_write_idx := 0, buf_count := 0,
            event_buffer := map (\<lambda>b. b\<lparr>is_ready := False\<rparr>) (event_buffer d),
            adaptive_mean := 0, adaptive_var := 0,
            current_spectral_flux := 0, current_high_freq_energy := 0,
            current_mfcc_delta := 0, current_fusion_score := 0,
            stats_peak_rate := init_feature_stats tau sr,
            stats_spectral_flux := init_feature_stats tau sr,
            stats_high_freq := init_feature_stats tau sr,
            stats_mfcc_delta := init_feature_stats tau sr,
            stats_wavelet := init_feature_stats tau sr\<rparr>)"

text \<open>
  \<^verbatim>\<open>syllable_create\<close>: the detector is zeroed, the construction-time fields are set and
  \<^verbatim>\<open>syllable_reset\<close> is called. Allocation is taken to succeed, so an optional module is
  present exactly when the configuration enables it.
\<close>

definition syllable_create :: "SyllableConfig \<Rightarrow> SyllableDetector" where
  "syllable_create cfg =
     (let sr = sample_rate cfg;
          vh = c_int (voiced_hold_ms cfg * 0.001 * real_of_int sr);
          ad = (adaptive_peak_rate_k cfg > 0 \<and> adaptive_peak_rate_tau_ms cfg > 0);
          tau_s = adaptive_peak_rate_tau_ms cfg * 0.001;
          a = (if tau_s * real_of_int sr = 0 then 1 else 1 / (tau_s * real_of_int sr))
      in syllable_reset
           \<lparr>config = cfg, total_samples = 0,
            has_spectral_flux = enable_spectral_flux cfg,
            has_high_freq_energy = enable_high_freq_energy cfg,
            has_mfcc = enable_mfcc_delta cfg,
            has_wavelet = enable_wavelet cfg,
            prev_env = 0, current_peak_rate = 0, last_zff_val = 0,
            last_epoch_samples_ago = 0, current_f0 = 0, smoothed_f0 = 0,
            min_f0_since_peak = 0, f0_has_risen = True, f0_jump_counter = 0,
            voicing_counter = 0, is_voiced = False,
            voiced_hold_samples = (if vh < 1 then 1 else vh),
            current_energy = 0, energy_floor = 0, prev_sample = 0, prev_prev_sample = 0,
            current_teo = 0, teo_mean = 0, teo_var = 0,
            short_energy = 0, long_energy = 0.0001, current_ler = 1,
            adaptive_enabled = ad, adaptive_mean = 0, adaptive_var = 0,
            adaptive_alpha = (if ad then (if a > 1 then 1 else a) else 0),
            stats_peak_rate = init_feature_stats (adaptive_peak_rate_tau_ms cfg) sr,
            stats_spectral_flux = init_feature_stats (adaptive_peak_rate_tau_ms cfg) sr,
            stats_high_freq = init_feature_stats (adaptive_peak_rate_tau_ms cfg) sr,
            stats_mfcc_delta = init_feature_stats (adaptive_peak_rate_tau_ms cfg) sr,
            stats_wavelet = zero_stats,
            current_spectral_flux = 0, current_high_freq_energy = 0,
            current_mfcc_delta = 0, current_wavelet_score = 0, current_fusion_score = 0,
            state = STATE_IDLE, state_timer = 0,
            max_onset_rising_samples = c_int (0.050 * real_of_int sr),
            wip_event = zero_event, max_peak_rate_in_syllable = 0,
            max_fusion_score_in_syllable = 0, energy_accum = 0, onset_timestamp = 0,
            last_event_samples = 0, peak_sample_offset = 0,
            current_onset_type = ONSET_TYPE_VOICED,
            event_buffer = replicate PROMINENCE_BUFFER_SIZE \<lparr>event = zero_event, is_ready = False\<rparr>,
            buf_write_idx = 0, buf_read_idx = 0, buf_count = 0,
            rt_cal = zero_cal\<rparr>)"

definition start_calibration :: "SyllableDetector \<Rightarrow> RealtimeCalibration" where
  "start_calibration d =
     zero_cal\<lparr>is_calibrating := True,
              target_samples := c_int (calibration_duration_ms (config d) * 0.001
                                        * real_of_int (sample_rate (config d)))\<rparr>"

definition syllable_set_realtime_mode :: "SyllableDetector \<Rightarrow> bool \<Rightarrow> SyllableDetector" where
  "syllable_set_realtime_mode d enable =
     (let d1 = d\<lparr>config := (config d)\<lparr>realtime_mode := enable\<rparr>\<rparr>
      in if enable then d1\<lparr>rt_cal := start_calibration d1\<rparr> else d1)"

definition syllable_recalibrate :: "SyllableDetector \<Rightarrow> SyllableDetector" where
  "syllable_recalibrate d =
     (let d1 = (if \<not> realtime_mode (config d)
                then d\<lparr>config := (config d)\<lparr>realtime_mode := True\<rparr>\<rparr> else d)
      in d1\<lparr>rt_cal := start_calibration d1\<rparr>)"

definition syllable_is_calibrating :: "SyllableDetector \<Rightarrow> bool" where
  "syllable_is_calibrating d = is_calibrating (rt_cal d)"

definition syllable_set_snr_threshold :: "SyllableDetector \<Rightarrow> real \<Rightarrow> SyllableDetector" where
  "syllable_set_snr_threshold d snr_db =
     (let d1 = d\<lparr>config := (config d)\<lparr>snr_threshold_db := snr_db\<rparr>\<rparr>
      in if \<not> is_calibrating (rt_cal d1) \<and> realtime_mode (config d1)
         then d1\<lparr>rt_cal := (rt_cal d1)\<lparr>gamma := 10 powr (snr_db / 10)\<rparr>\<rparr>
         else d1)"

section \<open>Processing one sample\<close>

text \<open>
  The body of the sample loop of \<^verbatim>\<open>syllable_process\<close> is split along its numbered
  comments. Step 1: epoch detection on the zero-frequency signal, pitch smoothing with
  outlier rejection, the voiced flag and the pitch-rise flag.
\<close>

definition smooth_f0 :: "SyllableDetector \<Rightarrow> real \<Rightarrow> SyllableDetector" where
  "smooth_f0 d raw_f0 =
     (if smoothed_f0 d < 50
      then d\<lparr>smoothed_f0 := raw_f0, current_f0 := raw_f0, f0_jump_counter := 0\<rparr>
      else (let deviation = \<bar>raw_f0 - smoothed_f0 d\<bar> / smoothed_f0 d
            in if deviation < 0.2
               then (let s = 0.7 * smoothed_f0 d + 0.3 * raw_f0
                     in d\<lparr>smoothed_f0 := s, current_f0 := s, f0_jump_counter := 0\<rparr>)
               else (let c = f0_jump_counter d + 1
                     in if c > 3
                        then d\<lparr>smoothed_f0 := raw_f0, current_f0 := raw_f0,
                               f0_jump_counter := 0\<rparr>
                        else d\<lparr>f0_jump_counter := c\<rparr>)))"

definition is_epoch_at :: "SyllableDetector \<Rightarrow> real \<Rightarrow> bool" where
  "is_epoch_at d z = (last_zff_val d < 0 \<and> z \<ge> 0)"

definition zff_step :: "SyllableDetector \<Rightarrow> real \<Rightarrow> SyllableDetector" where
  "zff_step d z =
     (let d1 =
        (if is_epoch_at d z
         then (let d' =
                 (if last_epoch_samples_ago d > 0
                  then (let period_s = real_of_int (last_epoch_samples_ago d)
                                         / real_of_int (sample_rate (config d));
                            raw_f0 = 1 / period_s
                        in if raw_f0 > 50 \<and> raw_f0 < 600
                           then (smooth_f0 d raw_f0)\<lparr>voicing_counter := 5\<rparr>
                           else d)
                  else d)
               in d'\<lparr>last_epoch_samples_ago := 0\<rparr>)
         else d\<lparr>last_epoch_samples_ago := last_epoch_samples_ago d + 1\<rparr>)
      in d1\<lparr>last_zff_val := z\<rparr>)"

definition voicing_step :: "SyllableDetector \<Rightarrow> bool \<Rightarrow> SyllableDetector" where
  "voicing_step d is_epoch =
     (let d1 = d\<lparr>is_voiced := (voicing_counter d > 0)\<rparr>
      in if \<not> is_epoch
         then d1\<lparr>is_voiced := \<not> (last_epoch_samples_ago d1 > voiced_hold_samples d1)\<rparr>
         else d1)"

definition f0_rise_step :: "SyllableDetector \<Rightarrow> SyllableDetector" where
  "f0_rise_step d =
     (if smoothed_f0 d > 50
      then (let d1 = (if min_f0_since_peak d < 50
                      then d\<lparr>min_f0_since_peak := smoothed_f0 d\<rparr>
                      else if smoothed_f0 d < min_f0_since_peak d
                           then d\<lparr>min_f0_since_peak := smoothed_f0 d\<rparr>
                           else d)
            in if smoothed_f0 d1 > min_f0_since_peak d1 * 1.05
               then d1\<lparr>f0_has_risen := True\<rparr> else d1)
      else (if \<not> is_voiced d then d\<lparr>f0_has_risen := True\<rparr> else d))"

text \<open>Step 2: peak rate, energy and noise floor; Teager energy; local energy ratio.\<close>

definition peak_rate_step :: "SyllableDetector \<Rightarrow> real \<Rightarrow> SyllableDetector" where
  "peak_rate_step d env =
     (let diff = env - prev_env d;
          pr = (if diff > 0 then diff else 0)
      in d\<lparr>prev_env := env, current_peak_rate := pr, current_energy := env,
            energy_floor := (if env < energy_floor d \<or> energy_floor d < 0.00000001
                             then env
                             else 0.9999 * energy_floor d + 0.0001 * env)\<rparr>)"

definition teo_step :: "SyllableDetector \<Rightarrow> real \<Rightarrow> SyllableDetector" where
  "teo_step d x =
     (let teo_raw0 = prev_sample d * prev_sample d - prev_prev_sample d * x;
          teo_raw = (if teo_raw0 < 0 then 0 else teo_raw0);
          teo_alpha = 0.001;
          teo_delta = teo_raw - teo_mean d
      in d\<lparr>current_teo := teo_raw,
            teo_mean := teo_mean d + teo_alpha * teo_delta,
            teo_var := (1 - teo_alpha) * (teo_var d + teo_alpha * teo_delta * teo_delta),
            prev_prev_sample := prev_sample d,
            prev_sample := x\<rparr>)"

definition ler_alpha :: "real \<Rightarrow> int \<Rightarrow> real" where
  "ler_alpha tau_s sr = 1 - exp (- 1 / (tau_s * real_of_int sr))"

text \<open>The ratio of the short-term to the long-term energy, clamped at 10.\<close>

definition ler_ratio :: "real \<Rightarrow> real \<Rightarrow> real" where
  "ler_ratio se le =
     (if le > 0.0000000001 then (let r = se / le in if r > 10 then 10 else r) else 1)"

definition ler_step :: "SyllableDetector \<Rightarrow> real \<Rightarrow> SyllableDetector" where
  "ler_step d x =
     (let sample_energy = x * x;
          alpha_short = ler_alpha 0.020 (sample_rate (config d));
          alpha_long = ler_alpha 0.500 (sample_rate (config d));
          se = alpha_short * sample_energy + (1 - alpha_short) * short_energy d;
          le = alpha_long * sample_energy + (1 - alpha_long) * long_energy d
      in d\<lparr>short_energy := se, long_energy := le, current_ler := ler_ratio se le\<rparr>)"

text \<open>Step 3: the statistics of each feature are updated when it has a new value.\<close>

definition peak_rate_stats_step :: "SyllableDetector \<Rightarrow> SyllableDetector" where
  "peak_rate_stats_step d =
     (if is_voiced d \<or> allow_unvoiced_onsets (config d)
      then d\<lparr>stats_peak_rate :=
               update_feature_stats (stats_peak_rate d) (current_peak_rate d)\<rparr>
      else d)"

definition spectral_flux_step :: "SyllableDetector \<Rightarrow> Frame \<Rightarrow> SyllableDetector" where
  "spectral_flux_step d fr =
     (if has_spectral_flux d
      then (case flux_out fr of
              None \<Rightarrow> d
            | Some v \<Rightarrow> d\<lparr>current_spectral_flux := v,
                           stats_spectral_flux :=
                             update_feature_stats (stats_spectral_flux d) v\<rparr>)
      else d)"

definition high_freq_step :: "SyllableDetector \<Rightarrow> Frame \<Rightarrow> SyllableDetector" where
  "high_freq_step d fr =
     (if has_high_freq_energy d
      then d\<lparr>current_high_freq_energy := hfe_out fr,
             stats_high_freq := update_feature_stats (stats_high_freq d) (hfe_out fr)\<rparr>
      else d)"

definition mfcc_step :: "SyllableDetector \<Rightarrow> Frame \<Rightarrow> SyllableDetector" where
  "mfcc_step d fr =
     (if has_mfcc d
      then (case mfcc_out fr of
              None \<Rightarrow> d
            | Some v \<Rightarrow> d\<lparr>current_mfcc_delta := v,
                           stats_mfcc_delta :=
                             update_feature_stats (stats_mfcc_delta d) v\<rparr>)
      else d)"

definition wavelet_step :: "SyllableDetector \<Rightarrow> Frame \<Rightarrow> SyllableDetector" where
  "wavelet_step d fr =
     (if has_wavelet d
      then d\<lparr>current_wavelet_score := wavelet_out fr,
             stats_wavelet := update_feature_stats (stats_wavelet d) (wavelet_out fr)\<rparr>
      else d)"

definition features_step :: "SyllableDetector \<Rightarrow> Frame \<Rightarrow> SyllableDetector" where
  "features_step d fr =
     wavelet_step (mfcc_step (high_freq_step (spectral_flux_step
       (peak_rate_stats_step d) fr) fr) fr) fr"

definition calibration_step :: "SyllableDetector \<Rightarrow> SyllableDetector" where
  "calibration_step d =
     (if realtime_mode (config d) \<and> is_calibrating (rt_cal d)
      then update_rt_calibration d else d)"

text \<open>Step 4: fusion score, adaptive peak-rate statistics and the detection threshold.\<close>

definition fusion_step :: "SyllableDetector \<Rightarrow> SyllableDetector" where
  "fusion_step d = d\<lparr>current_fusion_score := compute_fusion_score d\<rparr>"

definition adaptive_step :: "SyllableDetector \<Rightarrow> SyllableDetector" where
  "adaptive_step d =
     (if adaptive_enabled d \<and> is_voiced d
      then (let delta = current_peak_rate d - adaptive_mean d
            in d\<lparr>adaptive_mean := adaptive_mean d + adaptive_alpha d * delta,
                  adaptive_var := (1 - adaptive_alpha d)
                                  * (adaptive_var d + adaptive_alpha d * delta * delta)\<rparr>)
      else d)"

definition peak_threshold :: "SyllableDetector \<Rightarrow> real" where
  "peak_threshold d =
     (let threshold = threshold_peak_rate (config d)
      in if adaptive_enabled d
         then (let std = (if adaptive_var d > 0 then sqrt (adaptive_var d) else 0);
                   adaptive = adaptive_mean d + adaptive_peak_rate_k (config d) * std
               in if adaptive > threshold then adaptive else threshold)
         else threshold)"

text \<open>
  The front end of a sample: the sample counter and steps 1 to 4. The fusion-score
  history (median and MAD) that the C code maintains here is never read and is left
  out.
\<close>

definition front_end :: "SyllableDetector \<Rightarrow> Frame \<Rightarrow> SyllableDetector" where
  "front_end d fr =
     (let d0 = d\<lparr>total_samples := total_samples d + 1\<rparr>;
          ep = is_epoch_at d0 (zff_out fr);
          d1 = zff_step d0 (zff_out fr);
          d2 = voicing_step d1 ep;
          d3 = f0_rise_step d2;
          d4 = peak_rate_step d3 (env_out fr);
          d5 = teo_step d4 (in_sample fr);
          d6 = ler_step d5 (in_sample fr);
          d7 = features_step d6 fr;
          d8 = calibration_step d7;
          d9 = fusion_step d8
      in adaptive_step d9)"

section \<open>The syllable state machine\<close>

text \<open>\<^verbatim>\<open>min_syllable_dist_ms\<close> converted to samples, as both uses in the C code compute it.\<close>

definition min_dist_samples :: "SyllableConfig \<Rightarrow> int" where
  "min_dist_samples c = c_int (min_syllable_dist_ms c * 0.001 * real_of_int (sample_rate c))"

text \<open>The event that the detector starts to build when an onset is accepted.\<close>

definition init_wip_event :: "SyllableDetector \<Rightarrow> real \<Rightarrow> real \<Rightarrow> SyllableOnsetType \<Rightarrow> SyllableEvent" where
  "init_wip_event d pr env ot =
     zero_event\<lparr>timestamp_samples := total_samples d,
                time_seconds := real (unat (total_samples d))
                                / real_of_int (sample_rate (config d)),
                peak_rate := pr, pr_slope := 0, energy := env, f0 := current_f0 d,
                delta_f0 := 0, duration_s := 0,
                spectral_flux := current_spectral_flux d,
                high_freq_energy := current_high_freq_energy d,
                mfcc_delta := current_mfcc_delta d,
                wavelet_score := current_wavelet_score d,
                fusion_score := current_fusion_score d,
                onset_type := ot\<rparr>"

definition f0_allows_new_onset :: "SyllableDetector \<Rightarrow> Frame \<Rightarrow> bool" where
  "f0_allows_new_onset d fr =
     (let c = config d;
          f0_condition = f0_has_risen d;
          teo_std = (if teo_var d > 0 then sqrt (teo_var d) else 0.000001);
          teo_normalized = (current_teo d - teo_mean d) / (teo_std + 0.000001);
          teo_strong = (teo_normalized > 3);
          ler_strong = (current_ler d > 2);
          fw = (if has_spectral_flux d then flatness_weber fr else 0);
          harmonicity_strong = (fw < - 0.3);
          strong_evidence = (current_fusion_score d > 0.85 \<or> teo_strong \<or> ler_strong
                             \<or> harmonicity_strong);
          time_since_last = c_int_of_u64 (total_samples d - last_event_samples d);
          enough_time_passed = (time_since_last > min_dist_samples c * 2)
      in if realtime_mode c then True
         else (f0_condition \<or> strong_evidence \<or> enough_time_passed))"

definition energy_gate_passed :: "SyllableDetector \<Rightarrow> bool" where
  "energy_gate_passed d =
     (if realtime_mode (config d) \<and> \<not> is_calibrating (rt_cal d)
      then (let energy_threshold = thresh (rt_cal d) ! 0 * 3;
                min_absolute_energy = 0.001
            in current_energy d > energy_threshold \<and> current_energy d > min_absolute_energy)
      else True)"

definition onset_trigger :: "SyllableDetector \<Rightarrow> real \<Rightarrow> real \<Rightarrow> real \<Rightarrow> bool" where
  "onset_trigger d pr threshold_on fusion_threshold_on =
     (let c = config d;
          voiced_trigger = (pr > threshold_on \<and> is_voiced d);
          fusion_trigger = (current_fusion_score d > fusion_threshold_on);
          unvoiced_trigger =
            (if allow_unvoiced_onsets c \<and> \<not> is_voiced d
             then (let sf_norm = (if has_spectral_flux d
                                  then normalize_feature (stats_spectral_flux d)
                                         (current_spectral_flux d)
                                  else 0);
                       hf_norm = (if has_high_freq_energy d
                                  then normalize_feature (stats_high_freq d)
                                         (current_high_freq_energy d)
                                  else 0)
                   in sf_norm > unvoiced_onset_threshold c
                      \<or> hf_norm > unvoiced_onset_threshold c)
             else False)
      in voiced_trigger \<or> (fusion_trigger \<and> (allow_unvoiced_onsets c \<or> is_voiced d))
         \<or> unvoiced_trigger)"

definition idle_step :: "SyllableDetector \<Rightarrow> Frame \<Rightarrow> real \<Rightarrow> real \<Rightarrow> real \<Rightarrow> real \<Rightarrow> SyllableDetector" where
  "idle_step d fr pr env threshold_on fusion_threshold_on =
     (if onset_trigger d pr threshold_on fusion_threshold_on
         \<and> f0_allows_new_onset d fr \<and> energy_gate_passed d
      then (let ot = determine_onset_type d
            in d\<lparr>state := STATE_ONSET_RISING, state_timer := 0,
                  current_onset_type := ot,
                  wip_event := init_wip_event d pr env ot,
                  max_peak_rate_in_syllable := pr,
                  max_fusion_score_in_syllable := current_fusion_score d,
                  energy_accum := env,
                  onset_timestamp := total_samples d,
                  peak_sample_offset := 0,
                  min_f0_since_peak := smoothed_f0 d,
                  f0_has_risen := False\<rparr>)
      else d)"

definition track_peak_rate :: "SyllableDetector \<Rightarrow> real \<Rightarrow> SyllableDetector" where
  "track_peak_rate d pr =
     (if pr > max_peak_rate_in_syllable d
      then d\<lparr>max_peak_rate_in_syllable := pr,
             wip_event := (wip_event d)\<lparr>peak_rate := pr\<rparr>,
             peak_sample_offset := state_timer d\<rparr>
      else d)"

definition track_fusion :: "SyllableDetector \<Rightarrow> SyllableDetector" where
  "track_fusion d =
     (if current_fusion_score d > max_fusion_score_in_syllable d
      then d\<lparr>max_fusion_score_in_syllable := current_fusion_score d,
             wip_event := (wip_event d)\<lparr>fusion_score := current_fusion_score d\<rparr>\<rparr>
      else d)"

definition track_spectral_flux :: "SyllableDetector \<Rightarrow> SyllableDetector" where
  "track_spectral_flux d =
     (if current_spectral_flux d > spectral_flux (wip_event d)
      then d\<lparr>wip_event := (wip_event d)\<lparr>spectral_flux := current_spectral_flux d\<rparr>\<rparr>
      else d)"

definition track_high_freq :: "SyllableDetector \<Rightarrow> SyllableDetector" where
  "track_high_freq d =
     (if current_high_freq_energy d > high_freq_energy (wip_event d)
      then d\<lparr>wip_event := (wip_event d)\<lparr>high_freq_energy := current_high_freq_energy d\<rparr>\<rparr>
      else d)"

definition track_mfcc :: "SyllableDetector \<Rightarrow> SyllableDetector" where
  "track_mfcc d =
     (if current_mfcc_delta d > mfcc_delta (wip_event d)
      then d\<lparr>wip_event := (wip_event d)\<lparr>mfcc_delta := current_mfcc_delta d\<rparr>\<rparr>
      else d)"

definition track_wavelet :: "SyllableDetector \<Rightarrow> SyllableDetector" where
  "track_wavelet d =
     (if current_wavelet_score d > wavelet_score (wip_event d)
      then d\<lparr>wip_event := (wip_event d)\<lparr>wavelet_score := current_wavelet_score d\<rparr>\<rparr>
      else d)"

text \<open>
  The running maxima of \<^verbatim>\<open>STATE_ONSET_RISING\<close>, in the order of the C code: peak rate
  (with the peak offset), fusion score, spectral flux, high-frequency energy, MFCC delta,
  wavelet score.
\<close>

definition track_maxima :: "SyllableDetector \<Rightarrow> real \<Rightarrow> SyllableDetector" where
  "track_maxima d pr =
     track_wavelet (track_mfcc (track_high_freq (track_spectral_flux
       (track_fusion (track_peak_rate d pr)))))"

definition onset_rising_step :: "SyllableDetector \<Rightarrow> real \<Rightarrow> real \<Rightarrow> SyllableDetector" where
  "onset_rising_step d pr env =
     (let d1 = d\<lparr>state_timer := state_timer d + 1, energy_accum := energy_accum d + env\<rparr>;
          d2 = track_maxima d1 pr;
          pr_dropping = (pr < max_peak_rate_in_syllable d2 * 0.5);
          fusion_dropping = (current_fusion_score d2 < max_fusion_score_in_syllable d2 * 0.6);
          time_limit_reached = (state_timer d2 > max_onset_rising_samples d2);
          d3 = (if pr_dropping \<or> fusion_dropping \<or> time_limit_reached
                then (let rise_time_s = real_of_int (peak_sample_offset d2 + 1)
                                         / real_of_int (sample_rate (config d2))
                      in d2\<lparr>state := STATE_NUCLEUS,
                             wip_event := (wip_event d2)
                               \<lparr>pr_slope := max_peak_rate_in_syllable d2
                                             / (rise_time_s + 0.0001)\<rparr>\<rparr>)
                else d2)
      in if \<not> is_voiced d3 \<and> current_onset_type d3 = ONSET_TYPE_VOICED
         then d3\<lparr>state := STATE_COOLDOWN\<rparr> else d3)"

text \<open>
  The push of the finished event into the ring buffer: when the buffer is full the
  slot at the write index (the oldest pending event) is overwritten and the read index
  moves on.
\<close>

definition push_event :: "SyllableDetector \<Rightarrow> SyllableDetector" where
  "push_event d =
     (let eb = (event_buffer d)[buf_write_idx d := \<lparr>event = wip_event d, is_ready = True\<rparr>];
          w = (buf_write_idx d + 1) mod PROMINENCE_BUFFER_SIZE
      in if buf_count d < int PROMINENCE_BUFFER_SIZE
         then d\<lparr>event_buffer := eb, buf_write_idx := w, buf_count := buf_count d + 1\<rparr>
         else d\<lparr>event_buffer := eb, buf_write_idx := w,
                buf_read_idx := (buf_read_idx d + 1) mod PROMINENCE_BUFFER_SIZE\<rparr>)"

definition nucleus_ends :: "SyllableDetector \<Rightarrow> real \<Rightarrow> real \<Rightarrow> bool" where
  "nucleus_ends d env fusion_threshold_off =
     (let energy_low =
            (if realtime_mode (config d)
             then (let peak_energy = (if energy (wip_event d) > 0 then energy (wip_event d)
                                      else max_fusion_score_in_syllable d)
                   in current_energy d < peak_energy * 0.2)
             else env < peak_rate (wip_event d) * 0.1);
          voicing_lost = (\<not> is_voiced d \<and> current_onset_type d = ONSET_TYPE_VOICED);
          fusion_low = (current_fusion_score d < fusion_threshold_off);
          max_nucleus_samples = c_int (0.1 * real_of_int (sample_rate (config d)));
          nucleus_timeout = (state_timer d > max_nucleus_samples)
      in energy_low \<or> voicing_lost \<or> fusion_low \<or> nucleus_timeout)"

definition nucleus_step :: "SyllableDetector \<Rightarrow> real \<Rightarrow> real \<Rightarrow> SyllableDetector" where
  "nucleus_step d env fusion_threshold_off =
     (let d1 = d\<lparr>state_timer := state_timer d + 1, energy_accum := energy_accum d + env\<rparr>
      in if nucleus_ends d1 env fusion_threshold_off
         then (let d2 = d1\<lparr>state := STATE_COOLDOWN,
                           wip_event := (wip_event d1)
                             \<lparr>duration_s := real (unat (total_samples d1 - onset_timestamp d1))
                                             / real_of_int (sample_rate (config d1)),
                              energy := energy_accum d1,
                              f0 := current_f0 d1\<rparr>\<rparr>
               in (push_event d2)\<lparr>last_event_samples := total_samples d2\<rparr>)
         else d1)"

definition cooldown_step :: "SyllableDetector \<Rightarrow> SyllableDetector" where
  "cooldown_step d =
     (let d1 = d\<lparr>state_timer := state_timer d + 1\<rparr>
      in if state_timer d1 > min_dist_samples (config d1)
         then d1\<lparr>state := STATE_IDLE\<rparr> else d1)"

definition state_machine_step :: "SyllableDetector \<Rightarrow> Frame \<Rightarrow> SyllableDetector" where
  "state_machine_step d fr =
     (let pr = current_peak_rate d;
          env = env_out fr;
          threshold_on = peak_threshold d * hysteresis_on_factor (config d);
          fusion_threshold_on = 0.6 * hysteresis_on_factor (config d);
          fusion_threshold_off = 0.4 * hysteresis_off_factor (config d)
      in case state d of
           STATE_IDLE \<Rightarrow> idle_step d fr pr env threshold_on fusion_threshold_on
         | STATE_ONSET_RISING \<Rightarrow> onset_rising_step d pr env
         | STATE_NUCLEUS \<Rightarrow> nucleus_step d env fusion_threshold_off
         | STATE_COOLDOWN \<Rightarrow> cooldown_step d)"

section \<open>Delayed emission, \<^verbatim>\<open>syllable_process\<close> and \<^verbatim>\<open>syllable_flush\<close>\<close>

text \<open>
  One round of the emission loop: prominence of the event at the read index, the accent
  flag against the threshold of the caller (0.9 in \<^verbatim>\<open>syllable_process\<close>, 1.2 in
  \<^verbatim>\<open>syllable_flush\<close>), copy to the output, release of the slot.
\<close>

definition emit_one :: "real \<Rightarrow> SyllableDetector \<Rightarrow> SyllableDetector \<times> SyllableEvent" where
  "emit_one accent d =
     (let i = buf_read_idx d;
          d1 = calculate_delta_f0 d i;
          score = calculate_prominence d1 i;
          evt = (event (event_buffer d1 ! i))\<lparr>prominence_score := score,
                                              is_accented := (score > accent)\<rparr>
      in (d1\<lparr>event_buffer := (event_buffer d1)[i := \<lparr>event = evt, is_ready = False\<rparr>],
             buf_read_idx := (i + 1) mod PROMINENCE_BUFFER_SIZE,
             buf_count := buf_count d1 - 1\<rparr>,
          evt))"

function emit_events ::
  "int \<Rightarrow> real \<Rightarrow> int \<Rightarrow> SyllableDetector \<Rightarrow> SyllableEvent list
     \<Rightarrow> SyllableDetector \<times> SyllableEvent list" where
  "emit_events context_needed accent max_events d out =
     (if buf_count d > context_needed \<and> int (length out) < max_events
      then emit_events context_needed accent max_events
             (fst (emit_one accent d)) (out @ [snd (emit_one accent d)])
      else (d, out))"
  by pat_completeness auto
termination
  by (relation "measure (\<lambda>(cn, a, m, d, out). nat (m - int (length out)))") auto

definition process_sample ::
  "SyllableDetector \<Rightarrow> Frame \<Rightarrow> int \<Rightarrow> SyllableEvent list
     \<Rightarrow> SyllableDetector \<times> SyllableEvent list" where
  "process_sample d fr max_events out =
     (let d1 = front_end d fr
      in if realtime_mode (config d1) \<and> is_calibrating (rt_cal d1) then (d1, out)
         else (let d2 = state_machine_step d1 fr;
                   context_needed = (if realtime_mode (config d2) then 0
                                     else context_size (config d2))
               in emit_events context_needed 0.9 max_events d2 out))"

fun process_loop ::
  "SyllableDetector \<Rightarrow> Frame list \<Rightarrow> int \<Rightarrow> SyllableEvent list
     \<Rightarrow> SyllableDetector \<times> SyllableEvent list" where
  "process_loop d [] max_events out = (d, out)"
| "process_loop d (fr # frs) max_events out =
     (case process_sample d fr max_events out of
        (d', out') \<Rightarrow> process_loop d' frs max_events out')"

text \<open>
  \<^verbatim>\<open>syllable_process\<close> and \<^verbatim>\<open>syllable_flush\<close> return the detector after the call and the
  events written to \<^verbatim>\<open>events_out\<close>; the C return value is the length of that list.
\<close>

definition syllable_process ::
  "SyllableDetector \<Rightarrow> Frame list \<Rightarrow> int \<Rightarrow> SyllableDetector \<times> SyllableEvent list" where
  "syllable_process d input max_events = process_loop d input max_events []"

definition syllable_flush ::
  "SyllableDetector \<Rightarrow> int \<Rightarrow> SyllableDetector \<times> SyllableEvent list" where
  "syllable_flush d max_events = emit_events 0 1.2 max_events d []"

section \<open>Default configuration\<close>

definition syllable_default_config :: "int \<Rightarrow> SyllableConfig" where
  "syllable_default_config sr =
     \<lparr>sample_rate = (if sr > 0 then sr else 44100),
      min_syllable_dist_ms = 150, threshold_peak_rate = 0.0003,
      adaptive_peak_rate_k = 4, adaptive_peak_rate_tau_ms = 500, voiced_hold_ms = 30,
      hysteresis_on_factor = 1.2, hysteresis_off_factor = 0.8, context_size = 2,
      enable_spectral_flux = True, enable_high_freq_energy = True,
      enable_mfcc_delta = True, enable_wavelet = True,
      weight_peak_rate = 0.30, weight_spectral_flux = 0.25, weight_high_freq = 0.15,
      weight_mfcc_delta = 0.10, weight_wavelet = 0.20, weight_voiced_bonus = 0.10,
      fusion_blend_alpha = 0.6, unvoiced_onset_threshold = 0.5,
      allow_unvoiced_onsets = True, enable_agc = True, realtime_mode = False,
      calibration_duration_ms = 2000, snr_threshold_db = 6\<rparr>"

section \<open>Specification-side notions\<close>

text \<open>
  The quantities that the specification names, defined from its words; the theorems
  below relate them to the functions above. Mean and (population) standard deviation of
  a sequence of frame values, and the frames that the calibration buffer holds for
  feature \<open>k\<close>:
\<close>

definition frames_mean :: "real list \<Rightarrow> real" where
  "frames_mean xs = sum_list xs / real (length xs)"

definition frames_std :: "real list \<Rightarrow> real" where
  "frames_std xs = sqrt ((\<Sum>x\<leftarrow>xs. (x - frames_mean xs)\<^sup>2) / real (length xs))"

definition buffered_frames :: "RealtimeCalibration \<Rightarrow> nat \<Rightarrow> real list" where
  "buffered_frames cal k = take (min (buf_idx cal) RT_BUF_SIZE) (buf cal ! k)"

text \<open>
  The ratios \<open>r\<^sub>k = x\<^sub>k / \<theta>\<^sub>k\<close> of realtime fusion, the set \<open>A\<close> of the ratios above 1
  extended by the voicing pseudo-ratio, and the geometric mean. A detector is
  calibrated when calibration is over and all six thresholds are positive.
\<close>

definition rt_ratios :: "SyllableDetector \<Rightarrow> real list" where
  "rt_ratios d = map (\<lambda>k. rt_features d ! k / thresh (rt_cal d) ! k) [0..<RT_NUM_FEATURES]"

definition active_ratios :: "SyllableDetector \<Rightarrow> real list" where
  "active_ratios d =
     filter (\<lambda>r. r > 1) (rt_ratios d)
     @ (if voiced_conf d > 0.5 then [1 + voiced_conf d] else [])"

definition geometric_mean :: "real list \<Rightarrow> real" where
  "geometric_mean xs = root (length xs) (prod_list xs)"

definition rt_calibrated :: "SyllableDetector \<Rightarrow> bool" where
  "rt_calibrated d \<longleftrightarrow>
     \<not> is_calibrating (rt_cal d) \<and> length (thresh (rt_cal d)) = RT_NUM_FEATURES
     \<and> (\<forall>k<RT_NUM_FEATURES. 0 < thresh (rt_cal d) ! k)"

text \<open>
  The enabled features of offline fusion, as pairs of weight and normalised value: peak
  rate and each optional feature whose module is present. The code accumulates one
  more term after them, the voiced bonus with \<open>weight_voiced_bonus\<close>, which is not a
  feature and has no enable flag; \<open>averaged_terms\<close> is the list with that term. The
  weight applied to a term is its weight divided by the accumulated total.
\<close>

definition feature_terms ::
  "SyllableDetector \<Rightarrow> real \<Rightarrow> real \<Rightarrow> real \<Rightarrow> real \<Rightarrow> real \<Rightarrow> (real \<times> real) list" where
  "feature_terms d norm_pr norm_sf norm_hf norm_mfcc norm_wavelet =
     [(weight_peak_rate (config d), norm_pr)]
     @ (if has_spectral_flux d then [(weight_spectral_flux (config d), norm_sf)] else [])
     @ (if has_high_freq_energy d then [(weight_high_freq (config d), norm_hf)] else [])
     @ (if has_mfcc d then [(weight_mfcc_delta (config d), norm_mfcc)] else [])
     @ (if has_wavelet d then [(weight_wavelet (config d), norm_wavelet)] else [])"

definition averaged_terms ::
  "SyllableDetector \<Rightarrow> real \<Rightarrow> real \<Rightarrow> real \<Rightarrow> real \<Rightarrow> real \<Rightarrow> real \<Rightarrow> (real \<times> real) list" where
  "averaged_terms d norm_pr norm_sf norm_hf norm_mfcc norm_wavelet voiced_bonus =
     feature_terms d norm_pr norm_sf norm_hf norm_mfcc norm_wavelet
     @ [(weight_voiced_bonus (config d), voiced_bonus)]"

definition applied_weights :: "SyllableDetector \<Rightarrow> (real \<times> real) list \<Rightarrow> real list" where
  "applied_weights d ps = map (\<lambda>p. fst p / fusion_w_total d) ps"

section \<open>Example detectors\<close>

text \<open>
  A detector in realtime mode whose calibration has collected nine silent frames out of
  a target of ten, and a calibrated realtime detector (thresholds 0.001) whose current
  envelope energy is twice its threshold.
\<close>

definition calibrating_example :: SyllableDetector where
  "calibrating_example =
     (syllable_create ((syllable_default_config 16000)\<lparr>realtime_mode := True\<rparr>))
       \<lparr>rt_cal := zero_cal\<lparr>is_calibrating := True, target_samples := 10,
                            cal_sample_count := 9, buf_idx := 9\<rparr>\<rparr>"

definition calibrated_example :: SyllableDetector where
  "calibrated_example =
     finalize_rt_calibration
       ((syllable_create ((syllable_default_config 16000)\<lparr>realtime_mode := True\<rparr>))
          \<lparr>current_energy := 0.002\<rparr>)"

text \<open>
  An offline configuration for 16 kHz with the optional modules, the AGC and the
  adaptive threshold switched off and no prominence context, and the frame of a sample
  of amplitude 0.1 whose band-pass envelope is \<open>e\<close> (no epoch: the zero-frequency signal
  stays positive).
\<close>

definition test_config :: SyllableConfig where
  "test_config =
     (syllable_default_config 16000)
       \<lparr>context_size := 0, adaptive_peak_rate_k := 0, enable_spectral_flux := False,
        enable_high_freq_energy := False, enable_mfcc_delta := False,
        enable_wavelet := False, enable_agc := False\<rparr>"

definition test_frame :: "real \<Rightarrow> Frame" where
  "test_frame e =
     \<lparr>in_sample = 0.1, zff_out = 0.2, env_out = e, flux_out = None, hfe_out = 0,
      mfcc_out = None, wavelet_out = 0, flatness_weber = 0\<rparr>"

section \<open>Notions used in the statements about runs\<close>

text \<open>
  A finalized event with onset at sample \<open>t\<close>, as it waits in a slot of the ring buffer.
\<close>

definition pending_slot :: "64 word \<Rightarrow> BufferedEvent" where
  "pending_slot t = \<lparr>event = zero_event\<lparr>timestamp_samples := t\<rparr>, is_ready = True\<rparr>"

text \<open>
  A detector with three finalized events waiting in the ring buffer (onsets at samples
  4000, 8000 and 12000 of a stream that has reached sample 16000), otherwise as
  constructed from the configuration \<open>c\<close>.
\<close>

definition pending_example :: "SyllableConfig \<Rightarrow> SyllableDetector" where
  "pending_example c =
     (syllable_create c)
       \<lparr>event_buffer := (event_buffer (syllable_create c))
                          [0 := pending_slot 4000, 1 := pending_slot 8000, 2 := pending_slot 12000],
        buf_write_idx := 3, buf_count := 3, total_samples := 16000,
        last_event_samples := 12000\<rparr>"

text \<open>
  The trailing context that the emission loop of \<^verbatim>\<open>syllable_process\<close> requires
  (\<^verbatim>\<open>context_needed\<close> in the C code).
\<close>

definition context_needed :: "SyllableDetector \<Rightarrow> int" where
  "context_needed d = (if realtime_mode (config d) then 0 else context_size (config d))"

text \<open>
  The detector with \<^verbatim>\<open>snr_threshold_db\<close> set to \<open>x\<close> and \<^verbatim>\<open>gamma\<close> set to \<open>g\<close>, every other field
  as it is.
\<close>

definition snr_update :: "real \<Rightarrow> real \<Rightarrow> SyllableDetector \<Rightarrow> SyllableDetector" where
  "snr_update x g d = d\<lparr>config := (config d)\<lparr>snr_threshold_db := x\<rparr>,
                         rt_cal := (rt_cal d)\<lparr>gamma := g\<rparr>\<rparr>"

text \<open>
  A sequence of calls of \<^verbatim>\<open>syllable_process\<close> (with its input chunk and the capacity of
  \<^verbatim>\<open>events_out\<close>) and of \<^verbatim>\<open>syllable_flush\<close> (with its capacity) on one detector, and the
  events that the calls write, in the order in which they are written.
\<close>

datatype Call = Process "Frame list" int | Flush int

fun run_calls :: "SyllableDetector \<Rightarrow> Call list \<Rightarrow> SyllableDetector \<times> SyllableEvent list" where
  "run_calls d [] = (d, [])"
| "run_calls d (Process input max_events # cs) =
     (let r = syllable_process d input max_events;
          r' = run_calls (fst r) cs
      in (fst r', snd r @ snd r'))"
| "run_calls d (Flush max_events # cs) =
     (let r = syllable_flush d max_events;
          r' = run_calls (fst r) cs
      in (fst r', snd r @ snd r'))"

section \<open>The EMA coefficient of the feature statistics\<close>

lemma exp_minus_gt:
  fixes x :: real
  assumes "0 < x"
  shows "1 - x < exp (- x)"
proof (cases "x \<le> 2")
  case True
  have "1 - x / 2 \<le> exp (- x / 2)"
    using exp_ge_add_one_self[of "- x / 2"] by simp
  moreover have "0 \<le> 1 - x / 2" using True by simp
  ultimately have "(1 - x / 2)\<^sup>2 \<le> (exp (- x / 2))\<^sup>2"
    by (intro power_mono) auto
  also have "(exp (- x / 2))\<^sup>2 = exp (- x)"
    using exp_double[of "- x / 2"] by simp
  finally have "(1 - x / 2)\<^sup>2 \<le> exp (- x)" .
  moreover have "1 - x < (1 - x / 2)\<^sup>2"
    using assms by (simp add: power2_eq_square algebra_simps)
  ultimately show ?thesis by linarith
next
  case False
  then have "1 - x < 0" by simp
  also have "0 < exp (- x)" by simp
  finally show ?thesis .
qed

text \<open>
  Claim C7 as stated: the EMA coefficient of a statistics record is
  \<open>1 - exp (- 1 / (\<tau> * fs))\<close>. It fails for the default time constant of 500 ms at
  16 kHz, whether \<open>\<tau>\<close> is read in seconds or in milliseconds: \<^verbatim>\<open>init_feature_stats\<close>
  stores \<open>1 / 8000\<close>.
\<close>

theorem C7_alpha_not_exponential:
  "alpha (init_feature_stats 500 16000) = 1 / 8000
   \<and> alpha (init_feature_stats 500 16000) \<noteq> 1 - exp (- 1 / (0.5 * 16000))
   \<and> alpha (init_feature_stats 500 16000) \<noteq> 1 - exp (- 1 / (500 * 16000))"
proof -
  have a: "alpha (init_feature_stats 500 16000) = 1 / 8000"
    by (simp add: init_feature_stats_def Let_def)
  have "(1::real) - 1 / 8000 < exp (- (1 / 8000))"
    using exp_minus_gt[of "1 / 8000"] by simp
  then have b: "(1::real) / 8000 \<noteq> 1 - exp (- 1 / (0.5 * 16000))" by simp
  have "(1::real) - 1 / 8000000 < exp (- (1 / 8000000))"
    using exp_minus_gt[of "1 / 8000000"] by simp
  then have c: "(1::real) / 8000 \<noteq> 1 - exp (- 1 / (500 * 16000))" by simp
  show ?thesis using a b c by simp
qed

text \<open>
  Claim C7, amended: for a positive time constant \<open>tau_ms\<close> (in milliseconds) and a
  positive sample rate, the coefficient set by \<^verbatim>\<open>init_feature_stats\<close> is the reciprocal
  of the time constant in samples, clamped to 1; it is an upper bound of
  \<open>1 - exp (- 1 / (\<tau> * fs))\<close> with \<open>\<tau>\<close> in seconds. \<^verbatim>\<open>update_feature_stats\<close> leaves the
  coefficient unchanged and uses it for the running mean and variance.
\<close>

theorem C7_alpha_reciprocal:
  assumes "0 < tau_ms" and "0 < sr"
  shows "alpha (init_feature_stats tau_ms sr) = min 1 (1 / (tau_ms * 0.001 * real_of_int sr))
         \<and> 1 - exp (- 1 / (tau_ms * 0.001 * real_of_int sr)) < alpha (init_feature_stats tau_ms sr)
         \<and> alpha (update_feature_stats st v) = alpha st
         \<and> mean (update_feature_stats st v) = mean st + alpha st * (v - mean st)
         \<and> var (update_feature_stats st v)
             = (1 - alpha st) * (var st + alpha st * (v - mean st)\<^sup>2)"
proof -
  let ?x = "1 / (tau_ms * 0.001 * real_of_int sr)"
  have pos: "0 < ?x" using assms by simp
  have a: "alpha (init_feature_stats tau_ms sr) = min 1 ?x"
    using assms by (simp add: init_feature_stats_def Let_def min_def)
  have "1 - ?x < exp (- ?x)" using exp_minus_gt[OF pos] .
  moreover have "0 < exp (- ?x)" by simp
  ultimately have "1 - exp (- ?x) < min 1 ?x" by (simp add: min_def)
  then have b: "1 - exp (- 1 / (tau_ms * 0.001 * real_of_int sr))
                < alpha (init_feature_stats tau_ms sr)"
    using a by simp
  have c: "alpha (update_feature_stats st v) = alpha st"
    "mean (update_feature_stats st v) = mean st + alpha st * (v - mean st)"
    "var (update_feature_stats st v) = (1 - alpha st) * (var st + alpha st * (v - mean st)\<^sup>2)"
    by (simp_all add: update_feature_stats_def Let_def power2_eq_square)
  show ?thesis using a b c by simp
qed

theorem C7_alpha_reciprocal_witness:
  "alpha (init_feature_stats 500 16000) = 1 / 8000
   \<and> alpha (update_feature_stats (init_feature_stats 500 16000) 1) = 1 / 8000
   \<and> mean (update_feature_stats (init_feature_stats 500 16000) 1) = 1 / 8000"
  using C7_alpha_reciprocal[of 500 16000 "init_feature_stats 500 16000" 1]
  by (simp add: init_feature_stats_def Let_def)

section \<open>Thresholds from realtime calibration\<close>

lemma sum_upt_take:
  "n \<le> length row \<Longrightarrow> (\<Sum>i\<leftarrow>[0..<n]. f (row ! i)) = (\<Sum>x\<leftarrow>take n row. f x)"
proof -
  assume "n \<le> length row"
  then have "map (\<lambda>i. row ! i) [0..<n] = take n row"
    by (simp add: list_eq_iff_nth_eq)
  then have "map f (map (\<lambda>i. row ! i) [0..<n]) = map f (take n row)" by simp
  then show ?thesis by (simp add: comp_def)
qed

lemma sum_list_sq_dev:
  fixes xs :: "real list"
  assumes "xs \<noteq> []"
  shows "(\<Sum>x\<leftarrow>xs. (x - m)\<^sup>2) = (\<Sum>x\<leftarrow>xs. x * x) - 2 * m * sum_list xs + real (length xs) * m\<^sup>2"
  by (induction xs) (simp_all add: power2_eq_square algebra_simps)

lemma variance_identity:
  fixes xs :: "real list"
  assumes "xs \<noteq> []"
  shows "(\<Sum>x\<leftarrow>xs. x * x) / real (length xs) - frames_mean xs * frames_mean xs
         = (\<Sum>x\<leftarrow>xs. (x - frames_mean xs)\<^sup>2) / real (length xs)"
proof -
  let ?n = "real (length xs)"
  have n: "?n > 0" using assms by simp
  have s: "sum_list xs = ?n * frames_mean xs" using n by (simp add: frames_mean_def)
  show ?thesis
    unfolding sum_list_sq_dev[OF assms] s using n
    by (simp add: field_simps power2_eq_square)
qed

lemma sum_list_sq_nonneg: "0 \<le> (\<Sum>x\<leftarrow>xs. (x - m)\<^sup>2)" for m :: real
  by (induction xs) simp_all

lemma rt_threshold_spec:
  assumes "10 \<le> n" "n \<le> length row"
  shows "rt_threshold row n g = max 0.000001 (frames_mean (take n row) + g * frames_std (take n row))"
proof -
  let ?xs = "take n row"
  have len: "length ?xs = n" using assms by simp
  have ne: "?xs \<noteq> []" using assms len by auto
  have m: "(\<Sum>i\<leftarrow>[0..<n]. row ! i) / real n = frames_mean ?xs"
    using sum_upt_take[OF assms(2), of "\<lambda>x. x"] len by (simp add: frames_mean_def)
  have v: "(\<Sum>i\<leftarrow>[0..<n]. row ! i * row ! i) / real n - frames_mean ?xs * frames_mean ?xs
           = (\<Sum>x\<leftarrow>?xs. (x - frames_mean ?xs)\<^sup>2) / real n"
    using variance_identity[OF ne] sum_upt_take[OF assms(2), of "\<lambda>x. x * x"] len by simp
  have nonneg: "0 \<le> (\<Sum>x\<leftarrow>?xs. (x - frames_mean ?xs)\<^sup>2) / real n"
    by (simp add: sum_list_sq_nonneg)
  have sd: "(if (\<Sum>x\<leftarrow>?xs. (x - frames_mean ?xs)\<^sup>2) / real n > 0
             then sqrt ((\<Sum>x\<leftarrow>?xs. (x - frames_mean ?xs)\<^sup>2) / real n) else 0)
            = frames_std ?xs"
    using nonneg len by (auto simp: frames_std_def)
  show ?thesis
    using assms(1) unfolding rt_threshold_def Let_def m v sd
    by (simp add: max_def)
qed

lemma update_rt_calibration_finalizes:
  assumes "target_samples (rt_cal d) \<le> cal_sample_count (rt_cal d) + 1"
  shows "update_rt_calibration d =
           finalize_rt_calibration
             (d\<lparr>rt_cal := (rt_cal d)\<lparr>buf := [(buf (rt_cal d) ! 0)[buf_idx (rt_cal d) mod RT_BUF_SIZE := current_energy d],
                (buf (rt_cal d) ! 1)[buf_idx (rt_cal d) mod RT_BUF_SIZE := current_peak_rate d],
                (buf (rt_cal d) ! 2)[buf_idx (rt_cal d) mod RT_BUF_SIZE := current_spectral_flux d],
                (buf (rt_cal d) ! 3)[buf_idx (rt_cal d) mod RT_BUF_SIZE := current_high_freq_energy d],
                (buf (rt_cal d) ! 4)[buf_idx (rt_cal d) mod RT_BUF_SIZE := current_mfcc_delta d],
                (buf (rt_cal d) ! 5)[buf_idx (rt_cal d) mod RT_BUF_SIZE := current_wavelet_score d]], buf_idx := buf_idx (rt_cal d) + 1,
                      cal_sample_count := cal_sample_count (rt_cal d) + 1\<rparr>\<rparr>)"
  using assms by (simp add: update_rt_calibration_def Let_def)

text \<open>
  Claim C5: when the sample that completes the target is stored (so that calibration
  finalizes) and at least 10 frames are then in the buffer, calibration ends, \<open>gamma\<close> is
  \<open>10\<close> to the power \<open>SNR_dB / 10\<close>, and the threshold of each feature \<open>k\<close> is the mean
  plus \<open>gamma\<close> times the standard deviation of the buffered frames of that feature,
  floored at \<open>10\<^sup>-\<^sup>6\<close>; the frame stored last holds the current feature values.
\<close>

theorem C5_calibration_thresholds:
  assumes "target_samples (rt_cal d) \<le> cal_sample_count (rt_cal d) + 1"
      and "10 \<le> buf_idx (rt_cal d) + 1"
      and "length (buf (rt_cal d)) = RT_NUM_FEATURES"
      and "\<forall>j<RT_NUM_FEATURES. length (buf (rt_cal d) ! j) = RT_BUF_SIZE"
      and "k < RT_NUM_FEATURES"
  shows "\<not> is_calibrating (rt_cal (update_rt_calibration d))
         \<and> gamma (rt_cal (update_rt_calibration d)) = 10 powr (snr_threshold_db (config d) / 10)
         \<and> thresh (rt_cal (update_rt_calibration d)) ! k
             = max 0.000001
                 (frames_mean (buffered_frames (rt_cal (update_rt_calibration d)) k)
                  + gamma (rt_cal (update_rt_calibration d))
                    * frames_std (buffered_frames (rt_cal (update_rt_calibration d)) k))
         \<and> buf (rt_cal (update_rt_calibration d)) ! k ! (buf_idx (rt_cal d) mod RT_BUF_SIZE)
             = rt_features d ! k"
proof -
  let ?idx = "buf_idx (rt_cal d) mod RT_BUF_SIZE"
  let ?n = "min (buf_idx (rt_cal d) + 1) RT_BUF_SIZE"
  let ?d' = "update_rt_calibration d"
  have k6: "k < 6" using assms(5) by (simp add: RT_NUM_FEATURES_def)
  have lens: "length (buf (rt_cal d) ! k) = RT_BUF_SIZE" using assms(4,5) by simp
  have idx: "?idx < RT_BUF_SIZE" by (simp add: RT_BUF_SIZE_def)
  have k_cases: "k = 0 \<or> k = 1 \<or> k = 2 \<or> k = 3 \<or> k = 4 \<or> k = 5" using k6 by arith
  have row: "buf (rt_cal ?d') ! k = (buf (rt_cal d) ! k)[?idx := rt_features d ! k]"
    using k_cases
    by (auto simp: update_rt_calibration_finalizes[OF assms(1)] finalize_rt_calibration_def
        Let_def rt_features_def)
  have rowlen: "length (buf (rt_cal ?d') ! k) = RT_BUF_SIZE" using row lens by simp
  have bi: "buf_idx (rt_cal ?d') = buf_idx (rt_cal d) + 1"
    by (simp add: update_rt_calibration_finalizes[OF assms(1)] finalize_rt_calibration_def Let_def)
  have n10: "10 \<le> ?n" using assms(2) by (simp add: RT_BUF_SIZE_def)
  have nlen: "?n \<le> length (buf (rt_cal ?d') ! k)" using rowlen by simp
  have g: "gamma (rt_cal ?d') = 10 powr (snr_threshold_db (config d) / 10)"
    by (simp add: update_rt_calibration_finalizes[OF assms(1)] finalize_rt_calibration_def Let_def)
  have c: "\<not> is_calibrating (rt_cal ?d')"
    by (simp add: update_rt_calibration_finalizes[OF assms(1)] finalize_rt_calibration_def Let_def)
  have th: "thresh (rt_cal ?d') ! k
            = rt_threshold (buf (rt_cal ?d') ! k) ?n (10 powr (snr_threshold_db (config d) / 10))"
    using k_cases
    by (auto simp: update_rt_calibration_finalizes[OF assms(1)] finalize_rt_calibration_def
        Let_def RT_NUM_FEATURES_def RT_BUF_SIZE_def min_def upt_rec)
  have bf: "buffered_frames (rt_cal ?d') k = take ?n (buf (rt_cal ?d') ! k)"
    by (simp add: buffered_frames_def bi)
  have w: "buf (rt_cal ?d') ! k ! ?idx = rt_features d ! k"
    using row lens idx by simp
  show ?thesis
    using c g w th rt_threshold_spec[OF n10 nlen] bf by simp
qed

theorem C5_calibration_thresholds_witness:
  "target_samples (rt_cal calibrating_example) \<le> cal_sample_count (rt_cal calibrating_example) + 1
   \<and> 10 \<le> buf_idx (rt_cal calibrating_example) + 1
   \<and> \<not> is_calibrating (rt_cal (update_rt_calibration calibrating_example))
   \<and> thresh (rt_cal (update_rt_calibration calibrating_example)) ! 0 = 0.000001"
proof -
  have h1: "target_samples (rt_cal calibrating_example)
            \<le> cal_sample_count (rt_cal calibrating_example) + 1"
    by (simp add: calibrating_example_def zero_cal_def)
  have h2: "10 \<le> buf_idx (rt_cal calibrating_example) + 1"
    by (simp add: calibrating_example_def zero_cal_def)
  have h3: "length (buf (rt_cal calibrating_example)) = RT_NUM_FEATURES"
    by (simp add: calibrating_example_def zero_cal_def)
  have h4: "\<forall>j<RT_NUM_FEATURES. length (buf (rt_cal calibrating_example) ! j) = RT_BUF_SIZE"
    by (simp add: calibrating_example_def zero_cal_def)
  have h5: "0 < RT_NUM_FEATURES" by (simp add: RT_NUM_FEATURES_def)
  have pr: "current_energy calibrating_example = 0"
    by (simp add: calibrating_example_def syllable_create_def syllable_reset_def Let_def)
  have row: "buf (rt_cal (update_rt_calibration calibrating_example)) ! 0 = replicate 100 0"
    by (simp add: update_rt_calibration_finalizes[OF h1] finalize_rt_calibration_def Let_def pr)
       (simp add: calibrating_example_def zero_cal_def RT_NUM_FEATURES_def RT_BUF_SIZE_def
          list_update_same_conv)
  have bi: "buf_idx (rt_cal (update_rt_calibration calibrating_example)) = 10"
    by (simp add: update_rt_calibration_finalizes[OF h1] finalize_rt_calibration_def Let_def)
       (simp add: calibrating_example_def zero_cal_def)
  have fr: "buffered_frames (rt_cal (update_rt_calibration calibrating_example)) 0 = replicate 10 0"
    by (simp add: buffered_frames_def row bi RT_BUF_SIZE_def)
  have m: "frames_mean (replicate 10 0) = 0"
    by (simp add: frames_mean_def sum_list_replicate)
  have sd: "frames_std (replicate 10 0) = 0"
    by (simp add: frames_std_def m sum_list_replicate)
  show ?thesis
    using C5_calibration_thresholds[OF h1 h2 h3 h4 h5] h1 h2 by (simp add: fr m sd)
qed

section \<open>Realtime fusion\<close>

lemma rt_accumulate_foldl:
  "foldl (rt_accumulate f th) acc ks
   = (fst acc + length (filter (\<lambda>r. r > 1) (map (\<lambda>k. f ! k / th ! k) ks)),
      snd acc + (\<Sum>r\<leftarrow>filter (\<lambda>r. r > 1) (map (\<lambda>k. f ! k / th ! k) ks). ln r))"
  by (induction ks arbitrary: acc) (simp_all add: rt_accumulate_def Let_def)

lemma prod_list_pos: "\<forall>x\<in>set xs. 0 < x \<Longrightarrow> 0 < prod_list xs" for xs :: "real list"
  by (induction xs) simp_all

lemma ln_prod_list: "\<forall>x\<in>set xs. 0 < x \<Longrightarrow> ln (prod_list xs) = (\<Sum>x\<leftarrow>xs. ln x)" for xs :: "real list"
proof (induction xs)
  case Nil
  then show ?case by simp
next
  case (Cons a xs)
  then have "0 < a" and "0 < prod_list xs" by (simp_all add: prod_list_pos)
  then have "ln (a * prod_list xs) = ln a + ln (prod_list xs)" by (simp add: ln_mult)
  then show ?case using Cons by simp
qed

lemma exp_mean_ln:
  fixes xs :: "real list"
  assumes "xs \<noteq> []" "\<forall>x\<in>set xs. 0 < x"
  shows "exp ((\<Sum>x\<leftarrow>xs. ln x) / real (length xs)) = geometric_mean xs"
proof -
  have n: "0 < length xs" using assms(1) by simp
  have p: "0 < prod_list xs" using prod_list_pos[OF assms(2)] .
  have "geometric_mean xs = prod_list xs powr (1 / real (length xs))"
    unfolding geometric_mean_def using root_powr_inverse[OF n less_imp_le[OF p]] .
  also have "\<dots> = exp ((1 / real (length xs)) * ln (prod_list xs))"
    using p by (simp add: powr_def)
  also have "\<dots> = exp ((\<Sum>x\<leftarrow>xs. ln x) / real (length xs))"
    using ln_prod_list[OF assms(2)] by simp
  finally show ?thesis by simp
qed

lemma active_ratios_pos: "\<forall>x\<in>set (active_ratios d). 1 < x"
  by (auto simp: active_ratios_def)

lemma geometric_mean_pos:
  assumes "xs \<noteq> []" "\<forall>x\<in>set xs. 0 < x"
  shows "0 < geometric_mean xs"
  using exp_mean_ln[OF assms] exp_gt_zero[of "(\<Sum>x\<leftarrow>xs. ln x) / real (length xs)"] by simp

lemma saturate_range: "0 < g \<Longrightarrow> 0 < 1 - 1 / (1 + g * 0.5) \<and> 1 - 1 / (1 + g * 0.5) < 1" for g :: real
  by (simp add: field_simps)

lemma floor_pos: "0 < (if t < 0.000001 then 0.000001 else t)" for t :: real
  by simp

lemma rt_threshold_pos: "0 < rt_threshold row n g"
proof (cases "n < 10")
  case True
  then show ?thesis by (simp add: rt_threshold_def)
next
  case False
  then show ?thesis unfolding rt_threshold_def Let_def
    by (simp only: if_False floor_pos)
qed

lemma finalize_rt_calibrated: "rt_calibrated (finalize_rt_calibration d)"
  by (simp add: rt_calibrated_def finalize_rt_calibration_def Let_def rt_threshold_pos)

text \<open>
  Claim C4: for a calibrated detector the realtime fusion score is 0 when no ratio
  exceeds 1 and the voicing confidence is not above 0.5; otherwise it is
  \<open>1 - 1 / (1 + 0.5 * G)\<close> with \<open>G\<close> the geometric mean of the ratios above 1 and of the
  voicing pseudo-ratio, and it lies strictly between 0 and 1.
\<close>

theorem C4_realtime_fusion:
  assumes "rt_calibrated d"
  shows "compute_fusion_realtime d
           = (if active_ratios d = [] then 0
              else 1 - 1 / (1 + 0.5 * geometric_mean (active_ratios d)))
         \<and> (active_ratios d \<noteq> [] \<longrightarrow>
               0 < compute_fusion_realtime d \<and> compute_fusion_realtime d < 1)"
proof -
  let ?A = "active_ratios d"
  let ?F = "filter (\<lambda>r. r > 1) (rt_ratios d)"
  let ?V = "(if voiced_conf d > 0.5 then [1 + voiced_conf d] else [])"
  have nc: "\<not> is_calibrating (rt_cal d)" using assms by (simp add: rt_calibrated_def)
  have pos: "\<forall>x\<in>set ?A. 0 < x" using active_ratios_pos[of d] by force
  define acc where "acc = foldl (rt_accumulate (rt_features d) (thresh (rt_cal d))) (0, 0) [0..<RT_NUM_FEATURES]"
  have acc: "acc = (length ?F, (\<Sum>r\<leftarrow>?F. ln r))"
    unfolding acc_def rt_accumulate_foldl by (simp add: rt_ratios_def)
  define acc' where "acc' = (if voiced_conf d > 0.5 then (fst acc + 1, snd acc + ln (1 + voiced_conf d)) else acc)"
  have acc': "acc' = (length ?A, (\<Sum>r\<leftarrow>?A. ln r))"
    unfolding acc'_def acc by (simp add: active_ratios_def)
  have cf: "compute_fusion_realtime d
            = (if fst acc' = 0 then 0 else 1 - 1 / (1 + exp (snd acc' / real (fst acc')) * 0.5))"
    using nc by (simp add: compute_fusion_realtime_def Let_def acc_def acc'_def)
  show ?thesis
  proof (cases "?A = []")
    case True
    then show ?thesis using cf acc' by simp
  next
    case False
    have g: "exp ((\<Sum>r\<leftarrow>?A. ln r) / real (length ?A)) = geometric_mean ?A"
      using exp_mean_ln[OF False pos] .
    have eq: "compute_fusion_realtime d = 1 - 1 / (1 + geometric_mean ?A * 0.5)"
      using cf acc' False g by simp
    have "0 < geometric_mean ?A" using geometric_mean_pos[OF False pos] .
    from saturate_range[OF this] eq False show ?thesis by (simp add: mult.commute)
  qed
qed

theorem C4_realtime_fusion_witness:
  "rt_calibrated calibrated_example \<and> active_ratios calibrated_example = [2]
   \<and> compute_fusion_realtime calibrated_example = 1 / 2"
proof -
  have cal: "rt_calibrated calibrated_example"
    unfolding calibrated_example_def by (rule finalize_rt_calibrated)
  have th: "thresh (rt_cal calibrated_example) = [0.001, 0.001, 0.001, 0.001, 0.001, 0.001]"
    by (simp add: calibrated_example_def finalize_rt_calibration_def Let_def
        syllable_create_def syllable_reset_def zero_cal_def rt_threshold_def
        RT_NUM_FEATURES_def RT_BUF_SIZE_def upt_rec)
  have ft: "rt_features calibrated_example = [0.002, 0, 0, 0, 0, 0]"
    by (simp add: calibrated_example_def finalize_rt_calibration_def Let_def
        syllable_create_def syllable_reset_def rt_features_def)
  have vc: "voiced_conf calibrated_example = 0"
    by (simp add: calibrated_example_def finalize_rt_calibration_def Let_def
        syllable_create_def syllable_reset_def voiced_conf_def)
  have ar: "active_ratios calibrated_example = [2]"
    by (simp add: active_ratios_def rt_ratios_def th ft vc RT_NUM_FEATURES_def upt_rec)
  have gm: "geometric_mean [2] = 2" by (simp add: geometric_mean_def)
  show ?thesis using C4_realtime_fusion[OF cal] cal ar gm by simp
qed

section \<open>Offline fusion weights\<close>

lemma w_total_averaged:
  "fusion_w_total d = (\<Sum>p\<leftarrow>averaged_terms d a b c e f g. fst p)"
  by (simp add: fusion_w_total_def averaged_terms_def feature_terms_def Let_def)

lemma sum_list_div: "(\<Sum>p\<leftarrow>ps. h p / t) = (\<Sum>p\<leftarrow>ps. h p) / t" for t :: real
  by (induction ps) (simp_all add: add_divide_distrib)

lemma applied_sum:
  "sum_list (applied_weights d ps) = (\<Sum>p\<leftarrow>ps. fst p) / fusion_w_total d"
  unfolding applied_weights_def by (simp add: sum_list_div comp_def)

lemma averaged_sum:
  "0 < fusion_w_total d \<Longrightarrow> sum_list (applied_weights d (averaged_terms d a b c e f g)) = 1"
  unfolding applied_sum w_total_averaged[of d a b c e f g, symmetric] by simp

lemma feature_sum:
  "0 < fusion_w_total d \<Longrightarrow>
   sum_list (applied_weights d (feature_terms d a b c e f))
     = 1 - weight_voiced_bonus (config d) / fusion_w_total d"
proof -
  assume pos: "0 < fusion_w_total d"
  have "(\<Sum>p\<leftarrow>feature_terms d a b c e f. fst p)
        = fusion_w_total d - weight_voiced_bonus (config d)"
    unfolding w_total_averaged[of d a b c e f 0] by (simp add: averaged_terms_def)
  then show ?thesis using pos unfolding applied_sum by (simp add: diff_divide_distrib)
qed

lemma avg_numerator:
  "fusion_weighted_avg d a b c e f g
   = (if fusion_w_total d > 0
      then (\<Sum>p\<leftarrow>averaged_terms d a b c e f g. fst p * snd p) / fusion_w_total d
      else (\<Sum>p\<leftarrow>averaged_terms d a b c e f g. fst p * snd p))"
  by (simp add: fusion_weighted_avg_def averaged_terms_def feature_terms_def Let_def)

lemma avg_terms: "0 < fusion_w_total d \<Longrightarrow>
   fusion_weighted_avg d a b c e f g
     = (\<Sum>p\<leftarrow>averaged_terms d a b c e f g. fst p / fusion_w_total d * snd p)"
  using sum_list_div[of "\<lambda>p. fst p * snd p" "fusion_w_total d" "averaged_terms d a b c e f g"]
  by (simp add: avg_numerator)

lemma disabled_sf: "\<not> has_spectral_flux d \<Longrightarrow>
   fusion_weighted_avg (d\<lparr>config := (config d)\<lparr>weight_spectral_flux := w\<rparr>\<rparr>) a b' c e f g
   = fusion_weighted_avg d a b c e f g"
  by (simp add: fusion_weighted_avg_def fusion_w_total_def Let_def)

lemma disabled_hf: "\<not> has_high_freq_energy d \<Longrightarrow>
   fusion_weighted_avg (d\<lparr>config := (config d)\<lparr>weight_high_freq := w\<rparr>\<rparr>) a b c' e f g
   = fusion_weighted_avg d a b c e f g"
  by (simp add: fusion_weighted_avg_def fusion_w_total_def Let_def)

lemma disabled_mf: "\<not> has_mfcc d \<Longrightarrow>
   fusion_weighted_avg (d\<lparr>config := (config d)\<lparr>weight_mfcc_delta := w\<rparr>\<rparr>) a b c e' f g
   = fusion_weighted_avg d a b c e f g"
  by (simp add: fusion_weighted_avg_def fusion_w_total_def Let_def)

lemma disabled_wv: "\<not> has_wavelet d \<Longrightarrow>
   fusion_weighted_avg (d\<lparr>config := (config d)\<lparr>weight_wavelet := w\<rparr>\<rparr>) a b c e f' g
   = fusion_weighted_avg d a b c e f g"
  by (simp add: fusion_weighted_avg_def fusion_w_total_def Let_def)

text \<open>
  Claim C8 as stated: the weights applied to the enabled features, after the division
  by the accumulated total, sum to 1. It fails for the default configuration with every
  module present: the total is 1.1 because it includes \<open>weight_voiced_bonus\<close>, the
  weights applied to the five features sum to \<open>10 / 11\<close>, and an unvoiced frame whose
  five normalised features are all 1 has the weighted average \<open>10 / 11\<close>.
\<close>

theorem C8_feature_weights_sum_below_one:
  "fusion_w_total (syllable_create (syllable_default_config 16000)) = 11 / 10
   \<and> sum_list (applied_weights (syllable_create (syllable_default_config 16000))
        (feature_terms (syllable_create (syllable_default_config 16000)) 1 1 1 1 1)) = 10 / 11
   \<and> sum_list (applied_weights (syllable_create (syllable_default_config 16000))
        (feature_terms (syllable_create (syllable_default_config 16000)) 1 1 1 1 1)) \<noteq> 1
   \<and> fusion_weighted_avg (syllable_create (syllable_default_config 16000)) 1 1 1 1 1 0 = 10 / 11"
proof -
  let ?d = "syllable_create (syllable_default_config 16000)"
  have t: "fusion_w_total ?d = 11 / 10"
    by (simp add: fusion_w_total_def syllable_create_def syllable_reset_def Let_def
        syllable_default_config_def)
  have s: "sum_list (applied_weights ?d (feature_terms ?d 1 1 1 1 1)) = 10 / 11"
    unfolding applied_sum t
    by (simp add: feature_terms_def syllable_create_def syllable_reset_def Let_def
        syllable_default_config_def)
  have a: "fusion_weighted_avg ?d 1 1 1 1 1 0 = 10 / 11"
    unfolding avg_numerator t
    by (simp add: averaged_terms_def feature_terms_def syllable_create_def syllable_reset_def
        Let_def syllable_default_config_def)
  show ?thesis using t s a by simp
qed

text \<open>
  Claim C8, amended: whatever subset of the optional modules is present, when the
  accumulated weight total is positive (the code divides only then) the weights applied
  to the enabled features together with the voiced-bonus term sum to 1, those applied to
  the enabled features alone sum to \<open>1 - weight_voiced_bonus / w_total\<close>, the total is
  the sum of the weights of exactly these terms, and the average is the sum of their
  values under the applied weights; for an absent module neither its value nor its
  weight changes the average.
\<close>

theorem C8_weights_with_voiced_bonus:
  assumes "0 < fusion_w_total d"
  shows "sum_list (applied_weights d (averaged_terms d n_pr n_sf n_hf n_mf n_wv vb)) = 1
         \<and> sum_list (applied_weights d (feature_terms d n_pr n_sf n_hf n_mf n_wv))
             = 1 - weight_voiced_bonus (config d) / fusion_w_total d
         \<and> fusion_w_total d = (\<Sum>p\<leftarrow>averaged_terms d n_pr n_sf n_hf n_mf n_wv vb. fst p)
         \<and> fusion_weighted_avg d n_pr n_sf n_hf n_mf n_wv vb
             = (\<Sum>p\<leftarrow>averaged_terms d n_pr n_sf n_hf n_mf n_wv vb.
                  fst p / fusion_w_total d * snd p)
         \<and> (\<not> has_spectral_flux d \<longrightarrow>
              fusion_weighted_avg (d\<lparr>config := (config d)\<lparr>weight_spectral_flux := w\<rparr>\<rparr>)
                n_pr x n_hf n_mf n_wv vb
              = fusion_weighted_avg d n_pr n_sf n_hf n_mf n_wv vb)
         \<and> (\<not> has_high_freq_energy d \<longrightarrow>
              fusion_weighted_avg (d\<lparr>config := (config d)\<lparr>weight_high_freq := w\<rparr>\<rparr>)
                n_pr n_sf x n_mf n_wv vb
              = fusion_weighted_avg d n_pr n_sf n_hf n_mf n_wv vb)
         \<and> (\<not> has_mfcc d \<longrightarrow>
              fusion_weighted_avg (d\<lparr>config := (config d)\<lparr>weight_mfcc_delta := w\<rparr>\<rparr>)
                n_pr n_sf n_hf x n_wv vb
              = fusion_weighted_avg d n_pr n_sf n_hf n_mf n_wv vb)
         \<and> (\<not> has_wavelet d \<longrightarrow>
              fusion_weighted_avg (d\<lparr>config := (config d)\<lparr>weight_wavelet := w\<rparr>\<rparr>)
                n_pr n_sf n_hf n_mf x vb
              = fusion_weighted_avg d n_pr n_sf n_hf n_mf n_wv vb)"
  using averaged_sum[OF assms, of n_pr n_sf n_hf n_mf n_wv vb]
    feature_sum[OF assms, of n_pr n_sf n_hf n_mf n_wv]
    w_total_averaged[of d n_pr n_sf n_hf n_mf n_wv vb]
    avg_terms[OF assms, of n_pr n_sf n_hf n_mf n_wv vb]
    disabled_sf[of d w n_pr x n_hf n_mf n_wv vb n_sf]
    disabled_hf[of d w n_pr n_sf x n_mf n_wv vb n_hf]
    disabled_mf[of d w n_pr n_sf n_hf x n_wv vb n_mf]
    disabled_wv[of d w n_pr n_sf n_hf n_mf x vb n_wv]
  by simp

theorem C8_weights_with_voiced_bonus_witness:
  "0 < fusion_w_total (syllable_create ((syllable_default_config 16000)\<lparr>enable_mfcc_delta := False\<rparr>))
   \<and> \<not> has_mfcc (syllable_create ((syllable_default_config 16000)\<lparr>enable_mfcc_delta := False\<rparr>))
   \<and> applied_weights (syllable_create ((syllable_default_config 16000)\<lparr>enable_mfcc_delta := False\<rparr>))
         (averaged_terms
            (syllable_create ((syllable_default_config 16000)\<lparr>enable_mfcc_delta := False\<rparr>))
            0 0 0 0 0 0)
       = [0.3, 0.25, 0.15, 0.2, 0.1]
   \<and> sum_list (applied_weights
         (syllable_create ((syllable_default_config 16000)\<lparr>enable_mfcc_delta := False\<rparr>))
         (averaged_terms
            (syllable_create ((syllable_default_config 16000)\<lparr>enable_mfcc_delta := False\<rparr>))
            0 0 0 0 0 0)) = 1
   \<and> sum_list (applied_weights
         (syllable_create ((syllable_default_config 16000)\<lparr>enable_mfcc_delta := False\<rparr>))
         (feature_terms
            (syllable_create ((syllable_default_config 16000)\<lparr>enable_mfcc_delta := False\<rparr>))
            0 0 0 0 0)) = 9 / 10"
proof -
  let ?d = "syllable_create ((syllable_default_config 16000)\<lparr>enable_mfcc_delta := False\<rparr>)"
  have t: "fusion_w_total ?d = 1"
    by (simp add: fusion_w_total_def syllable_create_def syllable_reset_def Let_def
        syllable_default_config_def)
  have pos: "0 < fusion_w_total ?d" using t by simp
  have nm: "\<not> has_mfcc ?d"
    by (simp add: syllable_create_def syllable_reset_def Let_def)
  have vb: "weight_voiced_bonus (config ?d) = 1 / 10"
    by (simp add: syllable_create_def syllable_reset_def Let_def syllable_default_config_def)
  have e: "applied_weights ?d (averaged_terms ?d 0 0 0 0 0 0) = [0.3, 0.25, 0.15, 0.2, 0.1]"
    unfolding applied_weights_def t
    by (simp add: averaged_terms_def feature_terms_def syllable_create_def syllable_reset_def
        Let_def syllable_default_config_def)
  show ?thesis
    using C8_weights_with_voiced_bonus[OF pos, of 0 0 0 0 0 0 0 0] pos nm e t vb by simp
qed

section \<open>Frame properties of the processing steps\<close>

text \<open>
  Which fields of the detector each step of \<^verbatim>\<open>syllable_process\<close> leaves unchanged: the
  front end never touches the state machine or the ring buffer, the state machine never
  touches the configuration, the sample counter or the calibration, and the emission
  loop only moves the read side of the ring buffer.
\<close>

lemma smooth_f0_frame [simp]:
  "config (smooth_f0 d r) = config d"
  "state (smooth_f0 d r) = state d"
  "state_timer (smooth_f0 d r) = state_timer d"
  "wip_event (smooth_f0 d r) = wip_event d"
  "event_buffer (smooth_f0 d r) = event_buffer d"
  "buf_read_idx (smooth_f0 d r) = buf_read_idx d"
  "buf_write_idx (smooth_f0 d r) = buf_write_idx d"
  "buf_count (smooth_f0 d r) = buf_count d"
  "total_samples (smooth_f0 d r) = total_samples d"
  "rt_cal (smooth_f0 d r) = rt_cal d"
  "last_event_samples (smooth_f0 d r) = last_event_samples d"
  "onset_timestamp (smooth_f0 d r) = onset_timestamp d"
  by (simp_all add: smooth_f0_def Let_def)

lemma zff_step_frame [simp]:
  "config (zff_step d z) = config d"
  "state (zff_step d z) = state d"
  "state_timer (zff_step d z) = state_timer d"
  "wip_event (zff_step d z) = wip_event d"
  "event_buffer (zff_step d z) = event_buffer d"
  "buf_read_idx (zff_step d z) = buf_read_idx d"
  "buf_write_idx (zff_step d z) = buf_write_idx d"
  "buf_count (zff_step d z) = buf_count d"
  "total_samples (zff_step d z) = total_samples d"
  "rt_cal (zff_step d z) = rt_cal d"
  "last_event_samples (zff_step d z) = last_event_samples d"
  "onset_timestamp (zff_step d z) = onset_timestamp d"
  by (simp_all add: zff_step_def Let_def)

lemma voicing_step_frame [simp]:
  "config (voicing_step d e) = config d"
  "state (voicing_step d e) = state d"
  "state_timer (voicing_step d e) = state_timer d"
  "wip_event (voicing_step d e) = wip_event d"
  "event_buffer (voicing_step d e) = event_buffer d"
  "buf_read_idx (voicing_step d e) = buf_read_idx d"
  "buf_write_idx (voicing_step d e) = buf_write_idx d"
  "buf_count (voicing_step d e) = buf_count d"
  "total_samples (voicing_step d e) = total_samples d"
  "rt_cal (voicing_step d e) = rt_cal d"
  "last_event_samples (voicing_step d e) = last_event_samples d"
  "onset_timestamp (voicing_step d e) = onset_timestamp d"
  by (simp_all add: voicing_step_def Let_def)

lemma f0_rise_step_frame [simp]:
  "config (f0_rise_step d) = config d"
  "state (f0_rise_step d) = state d"
  "state_timer (f0_rise_step d) = state_timer d"
  "wip_event (f0_rise_step d) = wip_event d"
  "event_buffer (f0_rise_step d) = event_buffer d"
  "buf_read_idx (f0_rise_step d) = buf_read_idx d"
  "buf_write_idx (f0_rise_step d) = buf_write_idx d"
  "buf_count (f0_rise_step d) = buf_count d"
  "total_samples (f0_rise_step d) = total_samples d"
  "rt_cal (f0_rise_step d) = rt_cal d"
  "last_event_samples (f0_rise_step d) = last_event_samples d"
  "onset_timestamp (f0_rise_step d) = onset_timestamp d"
  by (simp_all add: f0_rise_step_def Let_def)

lemma peak_rate_step_frame [simp]:
  "config (peak_rate_step d e) = config d"
  "state (peak_rate_step d e) = state d"
  "state_timer (peak_rate_step d e) = state_timer d"
  "wip_event (peak_rate_step d e) = wip_event d"
  "event_buffer (peak_rate_step d e) = event_buffer d"
  "buf_read_idx (peak_rate_step d e) = buf_read_idx d"
  "buf_write_idx (peak_rate_step d e) = buf_write_idx d"
  "buf_count (peak_rate_step d e) = buf_count d"
  "total_samples (peak_rate_step d e) = total_samples d"
  "rt_cal (peak_rate_step d e) = rt_cal d"
  "last_event_samples (peak_rate_step d e) = last_event_samples d"
  "onset_timestamp (peak_rate_step d e) = onset_timestamp d"
  by (simp_all add: peak_rate_step_def Let_def)

lemma teo_step_frame [simp]:
  "config (teo_step d x) = config d"
  "state (teo_step d x) = state d"
  "state_timer (teo_step d x) = state_timer d"
  "wip_event (teo_step d x) = wip_event d"
  "event_buffer (teo_step d x) = event_buffer d"
  "buf_read_idx (teo_step d x) = buf_read_idx d"
  "buf_write_idx (teo_step d x) = buf_write_idx d"
  "buf_count (teo_step d x) = buf_count d"
  "total_samples (teo_step d x) = total_samples d"
  "rt_cal (teo_step d x) = rt_cal d"
  "last_event_samples (teo_step d x) = last_event_samples d"
  "onset_timestamp (teo_step d x) = onset_timestamp d"
  by (simp_all add: teo_step_def Let_def)

lemma ler_step_frame [simp]:
  "config (ler_step d x) = config d"
  "state (ler_step d x) = state d"
  "state_timer (ler_step d x) = state_timer d"
  "wip_event (ler_step d x) = wip_event d"
  "event_buffer (ler_step d x) = event_buffer d"
  "buf_read_idx (ler_step d x) = buf_read_idx d"
  "buf_write_idx (ler_step d x) = buf_write_idx d"
  "buf_count (ler_step d x) = buf_count d"
  "total_samples (ler_step d x) = total_samples d"
  "rt_cal (ler_step d x) = rt_cal d"
  "last_event_samples (ler_step d x) = last_event_samples d"
  "onset_timestamp (ler_step d x) = onset_timestamp d"
  by (simp_all add: ler_step_def Let_def)

lemma peak_rate_stats_step_frame [simp]:
  "config (peak_rate_stats_step d) = config d"
  "state (peak_rate_stats_step d) = state d"
  "state_timer (peak_rate_stats_step d) = state_timer d"
  "wip_event (peak_rate_stats_step d) = wip_event d"
  "event_buffer (peak_rate_stats_step d) = event_buffer d"
  "buf_read_idx (peak_rate_stats_step d) = buf_read_idx d"
  "buf_write_idx (peak_rate_stats_step d) = buf_write_idx d"
  "buf_count (peak_rate_stats_step d) = buf_count d"
  "total_samples (peak_rate_stats_step d) = total_samples d"
  "rt_cal (peak_rate_stats_step d) = rt_cal d"
  "last_event_samples (peak_rate_stats_step d) = last_event_samples d"
  "onset_timestamp (peak_rate_stats_step d) = onset_timestamp d"
  by (simp_all add: peak_rate_stats_step_def Let_def)

lemma spectral_flux_step_frame [simp]:
  "config (spectral_flux_step d fr) = config d"
  "state (spectral_flux_step d fr) = state d"
  "state_timer (spectral_flux_step d fr) = state_timer d"
  "wip_event (spectral_flux_step d fr) = wip_event d"
  "event_buffer (spectral_flux_step d fr) = event_buffer d"
  "buf_read_idx (spectral_flux_step d fr) = buf_read_idx d"
  "buf_write_idx (spectral_flux_step d fr) = buf_write_idx d"
  "buf_count (spectral_flux_step d fr) = buf_count d"
  "total_samples (spectral_flux_step d fr) = total_samples d"
  "rt_cal (spectral_flux_step d fr) = rt_cal d"
  "last_event_samples (spectral_flux_step d fr) = last_event_samples d"
  "onset_timestamp (spectral_flux_step d fr) = onset_timestamp d"
  by (simp_all add: spectral_flux_step_def Let_def split: option.split)

lemma high_freq_step_frame [simp]:
  "config (high_freq_step d fr) = config d"
  "state (high_freq_step d fr) = state d"
  "state_timer (high_freq_step d fr) = state_timer d"
  "wip_event (high_freq_step d fr) = wip_event d"
  "event_buffer (high_freq_step d fr) = event_buffer d"
  "buf_read_idx (high_freq_step d fr) = buf_read_idx d"
  "buf_write_idx (high_freq_step d fr) = buf_write_idx d"
  "buf_count (high_freq_step d fr) = buf_count d"
  "total_samples (high_freq_step d fr) = total_samples d"
  "rt_cal (high_freq_step d fr) = rt_cal d"
  "last_event_samples (high_freq_step d fr) = last_event_samples d"
  "onset_timestamp (high_freq_step d fr) = onset_timestamp d"
  by (simp_all add: high_freq_step_def Let_def)

lemma mfcc_step_frame [simp]:
  "config (mfcc_step d fr) = config d"
  "state (mfcc_step d fr) = state d"
  "state_timer (mfcc_step d fr) = state_timer d"
  "wip_event (mfcc_step d fr) = wip_event d"
  "event_buffer (mfcc_step d fr) = event_buffer d"
  "buf_read_idx (mfcc_step d fr) = buf_read_idx d"
  "buf_write_idx (mfcc_step d fr) = buf_write_idx d"
  "buf_count (mfcc_step d fr) = buf_count d"
  "total_samples (mfcc_step d fr) = total_samples d"
  "rt_cal (mfcc_step d fr) = rt_cal d"
  "last_event_samples (mfcc_step d fr) = last_event_samples d"
  "onset_timestamp (mfcc_step d fr) = onset_timestamp d"
  by (simp_all add: mfcc_step_def Let_def split: option.split)

lemma wavelet_step_frame [simp]:
  "config (wavelet_step d fr) = config d"
  "state (wavelet_step d fr) = state d"
  "state_timer (wavelet_step d fr) = state_timer d"
  "wip_event (wavelet_step d fr) = wip_event d"
  "event_buffer (wavelet_step d fr) = event_buffer d"
  "buf_read_idx (wavelet_step d fr) = buf_read_idx d"
  "buf_write_idx (wavelet_step d fr) = buf_write_idx d"
  "buf_count (wavelet_step d fr) = buf_count d"
  "total_samples (wavelet_step d fr) = total_samples d"
  "rt_cal (wavelet_step d fr) = rt_cal d"
  "last_event_samples (wavelet_step d fr) = last_event_samples d"
  "onset_timestamp (wavelet_step d fr) = onset_timestamp d"
  by (simp_all add: wavelet_step_def Let_def)

lemma features_step_frame [simp]:
  "config (features_step d fr) = config d"
  "state (features_step d fr) = state d"
  "state_timer (features_step d fr) = state_timer d"
  "wip_event (features_step d fr) = wip_event d"
  "event_buffer (features_step d fr) = event_buffer d"
  "buf_read_idx (features_step d fr) = buf_read_idx d"
  "buf_write_idx (features_step d fr) = buf_write_idx d"
  "buf_count (features_step d fr) = buf_count d"
  "total_samples (features_step d fr) = total_samples d"
  "rt_cal (features_step d fr) = rt_cal d"
  "last_event_samples (features_step d fr) = last_event_samples d"
  "onset_timestamp (features_step d fr) = onset_timestamp d"
  by (simp_all add: features_step_def Let_def)

lemma update_rt_calibration_frame [simp]:
  "config (update_rt_calibration d) = config d"
  "state (update_rt_calibration d) = state d"
  "state_timer (update_rt_calibration d) = state_timer d"
  "wip_event (update_rt_calibration d) = wip_event d"
  "event_buffer (update_rt_calibration d) = event_buffer d"
  "buf_read_idx (update_rt_calibration d) = buf_read_idx d"
  "buf_write_idx (update_rt_calibration d) = buf_write_idx d"
  "buf_count (update_rt_calibration d) = buf_count d"
  "total_samples (update_rt_calibration d) = total_samples d"
  "last_event_samples (update_rt_calibration d) = last_event_samples d"
  "onset_timestamp (update_rt_calibration d) = onset_timestamp d"
  by (simp_all add: update_rt_calibration_def finalize_rt_calibration_def Let_def)

lemma calibration_step_frame [simp]:
  "config (calibration_step d) = config d"
  "state (calibration_step d) = state d"
  "state_timer (calibration_step d) = state_timer d"
  "wip_event (calibration_step d) = wip_event d"
  "event_buffer (calibration_step d) = event_buffer d"
  "buf_read_idx (calibration_step d) = buf_read_idx d"
  "buf_write_idx (calibration_step d) = buf_write_idx d"
  "buf_count (calibration_step d) = buf_count d"
  "total_samples (calibration_step d) = total_samples d"
  "last_event_samples (calibration_step d) = last_event_samples d"
  "onset_timestamp (calibration_step d) = onset_timestamp d"
  by (simp_all add: calibration_step_def Let_def)

lemma fusion_step_frame [simp]:
  "config (fusion_step d) = config d"
  "state (fusion_step d) = state d"
  "state_timer (fusion_step d) = state_timer d"
  "wip_event (fusion_step d) = wip_event d"
  "event_buffer (fusion_step d) = event_buffer d"
  "buf_read_idx (fusion_step d) = buf_read_idx d"
  "buf_write_idx (fusion_step d) = buf_write_idx d"
  "buf_count (fusion_step d) = buf_count d"
  "total_samples (fusion_step d) = total_samples d"
  "rt_cal (fusion_step d) = rt_cal d"
  "last_event_samples (fusion_step d) = last_event_samples d"
  "onset_timestamp (fusion_step d) = onset_timestamp d"
  by (simp_all add: fusion_step_def Let_def)

lemma adaptive_step_frame [simp]:
  "config (adaptive_step d) = config d"
  "state (adaptive_step d) = state d"
  "state_timer (adaptive_step d) = state_timer d"
  "wip_event (adaptive_step d) = wip_event d"
  "event_buffer (adaptive_step d) = event_buffer d"
  "buf_read_idx (adaptive_step d) = buf_read_idx d"
  "buf_write_idx (adaptive_step d) = buf_write_idx d"
  "buf_count (adaptive_step d) = buf_count d"
  "total_samples (adaptive_step d) = total_samples d"
  "rt_cal (adaptive_step d) = rt_cal d"
  "last_event_samples (adaptive_step d) = last_event_samples d"
  "onset_timestamp (adaptive_step d) = onset_timestamp d"
  by (simp_all add: adaptive_step_def Let_def)

lemma front_end_frame [simp]:
  "config (front_end d fr) = config d"
  "state (front_end d fr) = state d"
  "state_timer (front_end d fr) = state_timer d"
  "wip_event (front_end d fr) = wip_event d"
  "event_buffer (front_end d fr) = event_buffer d"
  "buf_read_idx (front_end d fr) = buf_read_idx d"
  "buf_write_idx (front_end d fr) = buf_write_idx d"
  "buf_count (front_end d fr) = buf_count d"
  "last_event_samples (front_end d fr) = last_event_samples d"
  "onset_timestamp (front_end d fr) = onset_timestamp d"
  "total_samples (front_end d fr) = total_samples d + 1"
  by (simp_all add: front_end_def Let_def)

lemma calibration_step_rt_cal:
  "\<not> is_calibrating (rt_cal d) \<Longrightarrow> rt_cal (calibration_step d) = rt_cal d"
  "\<not> realtime_mode (config d) \<Longrightarrow> rt_cal (calibration_step d) = rt_cal d"
  by (simp_all add: calibration_step_def)

lemma front_end_rt_cal:
  "\<not> is_calibrating (rt_cal d) \<Longrightarrow> rt_cal (front_end d fr) = rt_cal d"
  "\<not> realtime_mode (config d) \<Longrightarrow> rt_cal (front_end d fr) = rt_cal d"
  by (simp_all add: front_end_def Let_def calibration_step_rt_cal)

declare emit_events.simps [simp del]

lemma set_delta_f0_frame [simp]:
  "config (set_delta_f0 d i v) = config d" "state (set_delta_f0 d i v) = state d"
  "state_timer (set_delta_f0 d i v) = state_timer d" "wip_event (set_delta_f0 d i v) = wip_event d"
  "buf_read_idx (set_delta_f0 d i v) = buf_read_idx d"
  "buf_write_idx (set_delta_f0 d i v) = buf_write_idx d" "buf_count (set_delta_f0 d i v) = buf_count d"
  "total_samples (set_delta_f0 d i v) = total_samples d" "rt_cal (set_delta_f0 d i v) = rt_cal d"
  "last_event_samples (set_delta_f0 d i v) = last_event_samples d"
  "onset_timestamp (set_delta_f0 d i v) = onset_timestamp d"
  "length (event_buffer (set_delta_f0 d i v)) = length (event_buffer d)"
  by (simp_all add: set_delta_f0_def Let_def)

lemma set_delta_f0_slot [simp]:
  "timestamp_samples (event (event_buffer (set_delta_f0 d i v) ! j))
     = timestamp_samples (event (event_buffer d ! j))"
  "is_ready (event_buffer (set_delta_f0 d i v) ! j) = is_ready (event_buffer d ! j)"
proof -
  show "timestamp_samples (event (event_buffer (set_delta_f0 d i v) ! j))
          = timestamp_samples (event (event_buffer d ! j))"
  proof (cases "i < length (event_buffer d)")
    case True
    then show ?thesis by (cases "i = j") (simp_all add: set_delta_f0_def Let_def)
  next
    case False
    then show ?thesis by (simp add: set_delta_f0_def Let_def list_update_beyond)
  qed
  show "is_ready (event_buffer (set_delta_f0 d i v) ! j) = is_ready (event_buffer d ! j)"
  proof (cases "i < length (event_buffer d)")
    case True
    then show ?thesis by (cases "i = j") (simp_all add: set_delta_f0_def Let_def)
  next
    case False
    then show ?thesis by (simp add: set_delta_f0_def Let_def list_update_beyond)
  qed
qed

lemma calculate_delta_f0_frame [simp]:
  "config (calculate_delta_f0 d i) = config d" "state (calculate_delta_f0 d i) = state d"
  "state_timer (calculate_delta_f0 d i) = state_timer d" "wip_event (calculate_delta_f0 d i) = wip_event d"
  "buf_read_idx (calculate_delta_f0 d i) = buf_read_idx d"
  "buf_write_idx (calculate_delta_f0 d i) = buf_write_idx d" "buf_count (calculate_delta_f0 d i) = buf_count d"
  "total_samples (calculate_delta_f0 d i) = total_samples d" "rt_cal (calculate_delta_f0 d i) = rt_cal d"
  "last_event_samples (calculate_delta_f0 d i) = last_event_samples d"
  "onset_timestamp (calculate_delta_f0 d i) = onset_timestamp d"
  "length (event_buffer (calculate_delta_f0 d i)) = length (event_buffer d)"
  "timestamp_samples (event (event_buffer (calculate_delta_f0 d i) ! j))
     = timestamp_samples (event (event_buffer d ! j))"
  "is_ready (event_buffer (calculate_delta_f0 d i) ! j) = is_ready (event_buffer d ! j)"
  by (simp_all add: calculate_delta_f0_def Let_def)

lemma emit_one_frame [simp]:
  "config (fst (emit_one a d)) = config d" "state (fst (emit_one a d)) = state d"
  "state_timer (fst (emit_one a d)) = state_timer d" "wip_event (fst (emit_one a d)) = wip_event d"
  "buf_read_idx (fst (emit_one a d)) = (buf_read_idx d + 1) mod PROMINENCE_BUFFER_SIZE"
  "buf_write_idx (fst (emit_one a d)) = buf_write_idx d"
  "buf_count (fst (emit_one a d)) = buf_count d - 1"
  "total_samples (fst (emit_one a d)) = total_samples d" "rt_cal (fst (emit_one a d)) = rt_cal d"
  "last_event_samples (fst (emit_one a d)) = last_event_samples d"
  "onset_timestamp (fst (emit_one a d)) = onset_timestamp d"
  "length (event_buffer (fst (emit_one a d))) = length (event_buffer d)"
  by (simp_all add: emit_one_def Let_def)

lemma emit_one_event [simp]:
  "is_accented (snd (emit_one a d)) = (prominence_score (snd (emit_one a d)) > a)"
  "timestamp_samples (snd (emit_one a d))
     = timestamp_samples (event (event_buffer d ! buf_read_idx d))"
  by (simp_all add: emit_one_def Let_def)

lemma emit_one_slot [simp]:
  "timestamp_samples (event (event_buffer (fst (emit_one a d)) ! j))
     = timestamp_samples (event (event_buffer d ! j))"
proof (cases "buf_read_idx d < length (event_buffer d)")
  case True
  then show ?thesis
    by (cases "buf_read_idx d = j") (simp_all add: emit_one_def Let_def)
next
  case False
  then have "length (event_buffer (calculate_delta_f0 d (buf_read_idx d))) \<le> buf_read_idx d"
    by simp
  then show ?thesis
    by (simp add: emit_one_def Let_def list_update_beyond)
qed

lemma emit_events_step:
  "buf_count d > cn \<Longrightarrow> int (length out) < m \<Longrightarrow>
   emit_events cn a m d out
     = emit_events cn a m (fst (emit_one a d)) (out @ [snd (emit_one a d)])"
  by (subst emit_events.simps) simp

lemma emit_events_stop:
  "\<not> (buf_count d > cn \<and> int (length out) < m) \<Longrightarrow> emit_events cn a m d out = (d, out)"
  by (subst emit_events.simps) auto

lemma emit_events_preserves:
  "(\<And>d. f (fst (emit_one a d)) = f d) \<Longrightarrow> f (fst (emit_events cn a m d out)) = f d"
proof (induction cn a m d out rule: emit_events.induct)
  case (1 cn a m d out)
  show ?case
  proof (cases "buf_count d > cn \<and> int (length out) < m")
    case True
    then have "f (fst (emit_events cn a m d out))
               = f (fst (emit_events cn a m (fst (emit_one a d)) (out @ [snd (emit_one a d)])))"
      by (simp add: emit_events_step)
    also have "\<dots> = f (fst (emit_one a d))" using 1 True by simp
    also have "\<dots> = f d" using 1(2) by simp
    finally show ?thesis .
  next
    case False
    then show ?thesis by (simp add: emit_events_stop)
  qed
qed

lemma emit_events_frame [simp]:
  "config (fst (emit_events cn a m d out)) = config d"
  "state (fst (emit_events cn a m d out)) = state d"
  "state_timer (fst (emit_events cn a m d out)) = state_timer d"
  "wip_event (fst (emit_events cn a m d out)) = wip_event d"
  "buf_write_idx (fst (emit_events cn a m d out)) = buf_write_idx d"
  "total_samples (fst (emit_events cn a m d out)) = total_samples d"
  "rt_cal (fst (emit_events cn a m d out)) = rt_cal d"
  "last_event_samples (fst (emit_events cn a m d out)) = last_event_samples d"
  "onset_timestamp (fst (emit_events cn a m d out)) = onset_timestamp d"
  "length (event_buffer (fst (emit_events cn a m d out))) = length (event_buffer d)"
proof -
  show "config (fst (emit_events cn a m d out)) = config d"
    by (rule emit_events_preserves[where f = config]) simp
  show "state (fst (emit_events cn a m d out)) = state d"
    by (rule emit_events_preserves[where f = state]) simp
  show "state_timer (fst (emit_events cn a m d out)) = state_timer d"
    by (rule emit_events_preserves[where f = state_timer]) simp
  show "wip_event (fst (emit_events cn a m d out)) = wip_event d"
    by (rule emit_events_preserves[where f = wip_event]) simp
  show "buf_write_idx (fst (emit_events cn a m d out)) = buf_write_idx d"
    by (rule emit_events_preserves[where f = buf_write_idx]) simp
  show "total_samples (fst (emit_events cn a m d out)) = total_samples d"
    by (rule emit_events_preserves[where f = total_samples]) simp
  show "rt_cal (fst (emit_events cn a m d out)) = rt_cal d"
    by (rule emit_events_preserves[where f = rt_cal]) simp
  show "last_event_samples (fst (emit_events cn a m d out)) = last_event_samples d"
    by (rule emit_events_preserves[where f = last_event_samples]) simp
  show "onset_timestamp (fst (emit_events cn a m d out)) = onset_timestamp d"
    by (rule emit_events_preserves[where f = onset_timestamp]) simp
  show "length (event_buffer (fst (emit_events cn a m d out))) = length (event_buffer d)"
    by (rule emit_events_preserves[where f = "\<lambda>d. length (event_buffer d)"]) simp
qed

lemma emit_events_accent:
  "\<forall>e\<in>set out. is_accented e = (prominence_score e > a) \<Longrightarrow>
   \<forall>e\<in>set (snd (emit_events cn a m d out)). is_accented e = (prominence_score e > a)"
proof (induction cn a m d out rule: emit_events.induct)
  case (1 cn a m d out)
  show ?case
  proof (cases "buf_count d > cn \<and> int (length out) < m")
    case True
    then show ?thesis using 1 by (simp add: emit_events_step)
  next
    case False
    then show ?thesis using 1(2) by (simp add: emit_events_stop)
  qed
qed

lemma emit_events_prefix:
  "\<exists>new. snd (emit_events cn a m d out) = out @ new"
proof (induction cn a m d out rule: emit_events.induct)
  case (1 cn a m d out)
  show ?case
  proof (cases "buf_count d > cn \<and> int (length out) < m")
    case True
    then show ?thesis using 1 by (auto simp add: emit_events_step)
  next
    case False
    then show ?thesis by (simp add: emit_events_stop)
  qed
qed

lemma push_event_frame [simp]:
  "config (push_event d) = config d" "state (push_event d) = state d"
  "state_timer (push_event d) = state_timer d" "wip_event (push_event d) = wip_event d"
  "total_samples (push_event d) = total_samples d" "rt_cal (push_event d) = rt_cal d"
  "last_event_samples (push_event d) = last_event_samples d"
  "onset_timestamp (push_event d) = onset_timestamp d"
  "length (event_buffer (push_event d)) = length (event_buffer d)"
  by (simp_all add: push_event_def Let_def)

lemma track_peak_rate_frame [simp]:
  "config (track_peak_rate d p) = config d" "state (track_peak_rate d p) = state d"
  "state_timer (track_peak_rate d p) = state_timer d"
  "timestamp_samples (wip_event (track_peak_rate d p)) = timestamp_samples (wip_event d)"
  "event_buffer (track_peak_rate d p) = event_buffer d" "buf_read_idx (track_peak_rate d p) = buf_read_idx d"
  "buf_write_idx (track_peak_rate d p) = buf_write_idx d" "buf_count (track_peak_rate d p) = buf_count d"
  "total_samples (track_peak_rate d p) = total_samples d" "rt_cal (track_peak_rate d p) = rt_cal d"
  "last_event_samples (track_peak_rate d p) = last_event_samples d"
  "onset_timestamp (track_peak_rate d p) = onset_timestamp d"
  by (simp_all add: track_peak_rate_def)

lemma track_fusion_frame [simp]:
  "config (track_fusion d) = config d" "state (track_fusion d) = state d"
  "state_timer (track_fusion d) = state_timer d"
  "timestamp_samples (wip_event (track_fusion d)) = timestamp_samples (wip_event d)"
  "event_buffer (track_fusion d) = event_buffer d" "buf_read_idx (track_fusion d) = buf_read_idx d"
  "buf_write_idx (track_fusion d) = buf_write_idx d" "buf_count (track_fusion d) = buf_count d"
  "total_samples (track_fusion d) = total_samples d" "rt_cal (track_fusion d) = rt_cal d"
  "last_event_samples (track_fusion d) = last_event_samples d"
  "onset_timestamp (track_fusion d) = onset_timestamp d"
  by (simp_all add: track_fusion_def)

lemma track_spectral_flux_frame [simp]:
  "config (track_spectral_flux d) = config d" "state (track_spectral_flux d) = state d"
  "state_timer (track_spectral_flux d) = state_timer d"
  "timestamp_samples (wip_event (track_spectral_flux d)) = timestamp_samples (wip_event d)"
  "event_buffer (track_spectral_flux d) = event_buffer d" "buf_read_idx (track_spectral_flux d) = buf_read_idx d"
  "buf_write_idx (track_spectral_flux d) = buf_write_idx d" "buf_count (track_spectral_flux d) = buf_count d"
  "total_samples (track_spectral_flux d) = total_samples d" "rt_cal (track_spectral_flux d) = rt_cal d"
  "last_event_samples (track_spectral_flux d) = last_event_samples d"
  "onset_timestamp (track_spectral_flux d) = onset_timestamp d"
  by (simp_all add: track_spectral_flux_def)

lemma track_high_freq_frame [simp]:
  "config (track_high_freq d) = config d" "state (track_high_freq d) = state d"
  "state_timer (track_high_freq d) = state_timer d"
  "timestamp_samples (wip_event (track_high_freq d)) = timestamp_samples (wip_event d)"
  "event_buffer (track_high_freq d) = event_buffer d" "buf_read_idx (track_high_freq d) = buf_read_idx d"
  "buf_write_idx (track_high_freq d) = buf_write_idx d" "buf_count (track_high_freq d) = buf_count d"
  "total_samples (track_high_freq d) = total_samples d" "rt_cal (track_high_freq d) = rt_cal d"
  "last_event_samples (track_high_freq d) = last_event_samples d"
  "onset_timestamp (track_high_freq d) = onset_timestamp d"
  by (simp_all add: track_high_freq_def)

lemma track_mfcc_frame [simp]:
  "config (track_mfcc d) = config d" "state (track_mfcc d) = state d"
  "state_timer (track_mfcc d) = state_timer d"
  "timestamp_samples (wip_event (track_mfcc d)) = timestamp_samples (wip_event d)"
  "event_buffer (track_mfcc d) = event_buffer d" "buf_read_idx (track_mfcc d) = buf_read_idx d"
  "buf_write_idx (track_mfcc d) = buf_write_idx d" "buf_count (track_mfcc d) = buf_count d"
  "total_samples (track_mfcc d) = total_samples d" "rt_cal (track_mfcc d) = rt_cal d"
  "last_event_samples (track_mfcc d) = last_event_samples d"
  "onset_timestamp (track_mfcc d) = onset_timestamp d"
  by (simp_all add: track_mfcc_def)

lemma track_wavelet_frame [simp]:
  "config (track_wavelet d) = config d" "state (track_wavelet d) = state d"
  "state_timer (track_wavelet d) = state_timer d"
  "timestamp_samples (wip_event (track_wavelet d)) = timestamp_samples (wip_event d)"
  "event_buffer (track_wavelet d) = event_buffer d" "buf_read_idx (track_wavelet d) = buf_read_idx d"
  "buf_write_idx (track_wavelet d) = buf_write_idx d" "buf_count (track_wavelet d) = buf_count d"
  "total_samples (track_wavelet d) = total_samples d" "rt_cal (track_wavelet d) = rt_cal d"
  "last_event_samples (track_wavelet d) = last_event_samples d"
  "onset_timestamp (track_wavelet d) = onset_timestamp d"
  by (simp_all add: track_wavelet_def)

lemma track_maxima_frame [simp]:
  "config (track_maxima d p) = config d" "state (track_maxima d p) = state d"
  "state_timer (track_maxima d p) = state_timer d"
  "timestamp_samples (wip_event (track_maxima d p)) = timestamp_samples (wip_event d)"
  "event_buffer (track_maxima d p) = event_buffer d" "buf_read_idx (track_maxima d p) = buf_read_idx d"
  "buf_write_idx (track_maxima d p) = buf_write_idx d" "buf_count (track_maxima d p) = buf_count d"
  "total_samples (track_maxima d p) = total_samples d" "rt_cal (track_maxima d p) = rt_cal d"
  "last_event_samples (track_maxima d p) = last_event_samples d"
  "onset_timestamp (track_maxima d p) = onset_timestamp d"
  by (simp_all add: track_maxima_def)

lemma idle_step_frame [simp]:
  "config (idle_step d fr p e t1 t2) = config d"
  "total_samples (idle_step d fr p e t1 t2) = total_samples d"
  "rt_cal (idle_step d fr p e t1 t2) = rt_cal d"
  "event_buffer (idle_step d fr p e t1 t2) = event_buffer d"
  "buf_read_idx (idle_step d fr p e t1 t2) = buf_read_idx d"
  "buf_write_idx (idle_step d fr p e t1 t2) = buf_write_idx d"
  "buf_count (idle_step d fr p e t1 t2) = buf_count d"
  "last_event_samples (idle_step d fr p e t1 t2) = last_event_samples d"
  by (simp_all add: idle_step_def Let_def)

lemma onset_rising_step_frame [simp]:
  "config (onset_rising_step d p e) = config d"
  "total_samples (onset_rising_step d p e) = total_samples d"
  "rt_cal (onset_rising_step d p e) = rt_cal d"
  "event_buffer (onset_rising_step d p e) = event_buffer d"
  "buf_read_idx (onset_rising_step d p e) = buf_read_idx d"
  "buf_write_idx (onset_rising_step d p e) = buf_write_idx d"
  "buf_count (onset_rising_step d p e) = buf_count d"
  "state_timer (onset_rising_step d p e) = state_timer d + 1"
  "timestamp_samples (wip_event (onset_rising_step d p e)) = timestamp_samples (wip_event d)"
  "last_event_samples (onset_rising_step d p e) = last_event_samples d"
  "onset_timestamp (onset_rising_step d p e) = onset_timestamp d"
  by (simp_all add: onset_rising_step_def Let_def)

lemma nucleus_step_frame [simp]:
  "config (nucleus_step d e t) = config d"
  "total_samples (nucleus_step d e t) = total_samples d"
  "rt_cal (nucleus_step d e t) = rt_cal d"
  "length (event_buffer (nucleus_step d e t)) = length (event_buffer d)"
  "state_timer (nucleus_step d e t) = state_timer d + 1"
  "timestamp_samples (wip_event (nucleus_step d e t)) = timestamp_samples (wip_event d)"
  "onset_timestamp (nucleus_step d e t) = onset_timestamp d"
  by (simp_all add: nucleus_step_def Let_def)

lemma cooldown_step_frame [simp]:
  "config (cooldown_step d) = config d"
  "total_samples (cooldown_step d) = total_samples d"
  "rt_cal (cooldown_step d) = rt_cal d"
  "event_buffer (cooldown_step d) = event_buffer d"
  "buf_read_idx (cooldown_step d) = buf_read_idx d"
  "buf_write_idx (cooldown_step d) = buf_write_idx d"
  "buf_count (cooldown_step d) = buf_count d"
  "state_timer (cooldown_step d) = state_timer d + 1"
  "wip_event (cooldown_step d) = wip_event d"
  "last_event_samples (cooldown_step d) = last_event_samples d"
  "onset_timestamp (cooldown_step d) = onset_timestamp d"
  by (simp_all add: cooldown_step_def Let_def)

lemma state_machine_step_frame [simp]:
  "config (state_machine_step d fr) = config d"
  "total_samples (state_machine_step d fr) = total_samples d"
  "rt_cal (state_machine_step d fr) = rt_cal d"
  "length (event_buffer (state_machine_step d fr)) = length (event_buffer d)"
proof -
  show "config (state_machine_step d fr) = config d"
    by (cases "state d") (simp_all add: state_machine_step_def Let_def)
  show "total_samples (state_machine_step d fr) = total_samples d"
    by (cases "state d") (simp_all add: state_machine_step_def Let_def)
  show "rt_cal (state_machine_step d fr) = rt_cal d"
    by (cases "state d") (simp_all add: state_machine_step_def Let_def)
  show "length (event_buffer (state_machine_step d fr)) = length (event_buffer d)"
    by (cases "state d") (simp_all add: state_machine_step_def Let_def)
qed

lemma process_sample_frame [simp]:
  "config (fst (process_sample d fr m out)) = config d"
  "total_samples (fst (process_sample d fr m out)) = total_samples d + 1"
  "length (event_buffer (fst (process_sample d fr m out))) = length (event_buffer d)"
  by (simp_all add: process_sample_def Let_def)

lemma process_sample_not_calibrating:
  "\<not> is_calibrating (rt_cal d) \<Longrightarrow> rt_cal (fst (process_sample d fr m out)) = rt_cal d"
  by (simp add: process_sample_def Let_def front_end_rt_cal)

lemma process_sample_calibrating:
  assumes "realtime_mode (config d)"
      and "is_calibrating (rt_cal (fst (process_sample d fr m out)))"
  shows "is_calibrating (rt_cal d)"
    and "snd (process_sample d fr m out) = out"
    and "state (fst (process_sample d fr m out)) = state d"
    and "state_timer (fst (process_sample d fr m out)) = state_timer d"
    and "wip_event (fst (process_sample d fr m out)) = wip_event d"
    and "event_buffer (fst (process_sample d fr m out)) = event_buffer d"
    and "buf_read_idx (fst (process_sample d fr m out)) = buf_read_idx d"
    and "buf_write_idx (fst (process_sample d fr m out)) = buf_write_idx d"
    and "buf_count (fst (process_sample d fr m out)) = buf_count d"
proof -
  show c: "is_calibrating (rt_cal d)"
  proof (rule ccontr)
    assume n: "\<not> is_calibrating (rt_cal d)"
    from process_sample_not_calibrating[OF n, of fr m out] assms(2) n show False by simp
  qed
  have "is_calibrating (rt_cal (front_end d fr))"
    using assms(2) by (auto simp: process_sample_def Let_def split: if_splits)
  then have eq: "process_sample d fr m out = (front_end d fr, out)"
    using assms(1) by (simp add: process_sample_def Let_def)
  show "snd (process_sample d fr m out) = out"
    and "state (fst (process_sample d fr m out)) = state d"
    and "state_timer (fst (process_sample d fr m out)) = state_timer d"
    and "wip_event (fst (process_sample d fr m out)) = wip_event d"
    and "event_buffer (fst (process_sample d fr m out)) = event_buffer d"
    and "buf_read_idx (fst (process_sample d fr m out)) = buf_read_idx d"
    and "buf_write_idx (fst (process_sample d fr m out)) = buf_write_idx d"
    and "buf_count (fst (process_sample d fr m out)) = buf_count d"
    by (simp_all add: eq)
qed

lemma process_sample_accent:
  "\<forall>e\<in>set out. is_accented e = (prominence_score e > 0.9) \<Longrightarrow>
   \<forall>e\<in>set (snd (process_sample d fr m out)). is_accented e = (prominence_score e > 0.9)"
  using emit_events_accent[where a = "0.9"]
  by (simp add: process_sample_def Let_def)

lemma process_loop_accent:
  "\<forall>e\<in>set out. is_accented e = (prominence_score e > 0.9) \<Longrightarrow>
   \<forall>e\<in>set (snd (process_loop d frs m out)). is_accented e = (prominence_score e > 0.9)"
proof (induction frs arbitrary: d out)
  case Nil
  then show ?case by simp
next
  case (Cons fr frs)
  obtain d' out' where ps: "process_sample d fr m out = (d', out')" by (cases "process_sample d fr m out")
  have "\<forall>e\<in>set out'. is_accented e = (prominence_score e > 0.9)"
    using process_sample_accent[OF Cons.prems, of d fr m] ps by simp
  from Cons.IH[OF this] show ?case by (simp add: ps)
qed

lemma process_loop_frame [simp]:
  "config (fst (process_loop d frs m out)) = config d"
proof (induction frs arbitrary: d out)
  case Nil
  then show ?case by simp
next
  case (Cons fr frs)
  obtain d' out' where ps: "process_sample d fr m out = (d', out')" by (cases "process_sample d fr m out")
  then have "config d' = config d" using process_sample_frame(1)[of d fr m out] by simp
  then show ?case using Cons.IH[of d' out'] by (simp add: ps)
qed

lemma process_loop_not_calibrating:
  "\<not> is_calibrating (rt_cal d) \<Longrightarrow> rt_cal (fst (process_loop d frs m out)) = rt_cal d"
proof (induction frs arbitrary: d out)
  case Nil
  then show ?case by simp
next
  case (Cons fr frs)
  obtain d' out' where ps: "process_sample d fr m out = (d', out')" by (cases "process_sample d fr m out")
  then have "rt_cal d' = rt_cal d" using process_sample_not_calibrating[OF Cons.prems, of fr m out] by simp
  then show ?case using Cons.IH[of d' out'] Cons.prems by (simp add: ps)
qed

lemma process_loop_calibrating:
  assumes "realtime_mode (config d)"
      and "is_calibrating (rt_cal (fst (process_loop d frs m out)))"
  shows "snd (process_loop d frs m out) = out
         \<and> state (fst (process_loop d frs m out)) = state d
         \<and> state_timer (fst (process_loop d frs m out)) = state_timer d
         \<and> wip_event (fst (process_loop d frs m out)) = wip_event d
         \<and> event_buffer (fst (process_loop d frs m out)) = event_buffer d
         \<and> buf_read_idx (fst (process_loop d frs m out)) = buf_read_idx d
         \<and> buf_write_idx (fst (process_loop d frs m out)) = buf_write_idx d
         \<and> buf_count (fst (process_loop d frs m out)) = buf_count d"
  using assms
proof (induction frs arbitrary: d out)
  case Nil
  then show ?case by simp
next
  case (Cons fr frs)
  obtain d' out' where ps: "process_sample d fr m out = (d', out')" by (cases "process_sample d fr m out")
  have cfg: "realtime_mode (config d')" using Cons.prems(1) process_sample_frame(1)[of d fr m out] ps by simp
  have fin: "is_calibrating (rt_cal (fst (process_loop d' frs m out')))"
    using Cons.prems(2) by (simp add: ps)
  have cal': "is_calibrating (rt_cal d')"
  proof (rule ccontr)
    assume n: "\<not> is_calibrating (rt_cal d')"
    from process_loop_not_calibrating[OF n, of frs m out'] fin n show False by simp
  qed
  then have c2: "is_calibrating (rt_cal (fst (process_sample d fr m out)))" by (simp add: ps)
  note s = process_sample_calibrating[OF Cons.prems(1) c2]
  show ?case using Cons.IH[OF cfg fin] s ps by simp
qed

section \<open>Quiescence during realtime calibration\<close>

lemma emit_events_count:
  "int (length (snd (emit_events cn a m d out)))
     = int (length out) + max 0 (min (buf_count d - cn) (m - int (length out)))
   \<and> buf_count (fst (emit_events cn a m d out))
     = buf_count d - max 0 (min (buf_count d - cn) (m - int (length out)))"
proof (induction cn a m d out rule: emit_events.induct)
  case (1 cn a m d out)
  show ?case
  proof (cases "buf_count d > cn \<and> int (length out) < m")
    case True
    then show ?thesis using 1 by (simp add: emit_events_step) linarith
  next
    case False
    then show ?thesis by (auto simp add: emit_events_stop)
  qed
qed

lemma state_machine_idle:
  "state d = STATE_IDLE \<Longrightarrow>
   state_machine_step d fr
     = idle_step d fr (current_peak_rate d) (env_out fr)
         (peak_threshold d * hysteresis_on_factor (config d))
         (0.6 * hysteresis_on_factor (config d))"
  by (simp add: state_machine_step_def Let_def)

lemma calibration_step_continues:
  "realtime_mode (config d) \<Longrightarrow> is_calibrating (rt_cal d) \<Longrightarrow>
   cal_sample_count (rt_cal d) + 1 < target_samples (rt_cal d) \<Longrightarrow>
   is_calibrating (rt_cal (calibration_step d))
   \<and> cal_sample_count (rt_cal (calibration_step d)) = cal_sample_count (rt_cal d) + 1
   \<and> target_samples (rt_cal (calibration_step d)) = target_samples (rt_cal d)"
  by (simp add: calibration_step_def update_rt_calibration_def Let_def)

lemma front_end_continues:
  assumes "realtime_mode (config d)" "is_calibrating (rt_cal d)"
      "cal_sample_count (rt_cal d) + 1 < target_samples (rt_cal d)"
  shows "is_calibrating (rt_cal (front_end d fr))
   \<and> cal_sample_count (rt_cal (front_end d fr)) = cal_sample_count (rt_cal d) + 1
   \<and> target_samples (rt_cal (front_end d fr)) = target_samples (rt_cal d)"
proof -
  let ?d7 = "features_step (ler_step (teo_step (peak_rate_step (f0_rise_step
       (voicing_step (zff_step (d\<lparr>total_samples := total_samples d + 1\<rparr>) (zff_out fr))
          (is_epoch_at (d\<lparr>total_samples := total_samples d + 1\<rparr>) (zff_out fr))))
       (env_out fr)) (in_sample fr)) (in_sample fr)) fr"
  have "realtime_mode (config ?d7)" "is_calibrating (rt_cal ?d7)"
      "cal_sample_count (rt_cal ?d7) + 1 < target_samples (rt_cal ?d7)"
    using assms by simp_all
  from calibration_step_continues[OF this] assms show ?thesis
    by (simp add: front_end_def Let_def)
qed

lemma process_sample_continues:
  assumes "realtime_mode (config d)" "is_calibrating (rt_cal d)"
      "cal_sample_count (rt_cal d) + 1 < target_samples (rt_cal d)"
  shows "process_sample d fr m out = (front_end d fr, out)"
  using front_end_continues[OF assms, of fr] assms(1)
  by (simp add: process_sample_def Let_def)

text \<open>
  Claim C3: for a detector in realtime mode, when calibration is still running at the
  end of a call of \<^verbatim>\<open>syllable_process\<close> (calibration never restarts inside a call, so it
  was running at every sample of the call), the call writes no event and the state
  machine has not moved: the state, its timer, the event under construction and the
  ring buffer are as before the call.
\<close>

theorem C3_calibration_quiescence:
  assumes "realtime_mode (config d)"
      and "syllable_is_calibrating (fst (syllable_process d input max_events))"
  shows "snd (syllable_process d input max_events) = []
         \<and> state (fst (syllable_process d input max_events)) = state d
         \<and> state_timer (fst (syllable_process d input max_events)) = state_timer d
         \<and> wip_event (fst (syllable_process d input max_events)) = wip_event d
         \<and> event_buffer (fst (syllable_process d input max_events)) = event_buffer d
         \<and> buf_read_idx (fst (syllable_process d input max_events)) = buf_read_idx d
         \<and> buf_write_idx (fst (syllable_process d input max_events)) = buf_write_idx d
         \<and> buf_count (fst (syllable_process d input max_events)) = buf_count d"
  using process_loop_calibrating[of d input max_events "[]"] assms
  by (simp add: syllable_process_def syllable_is_calibrating_def)

lemma realtime_start:
  "realtime_mode (config (syllable_set_realtime_mode (syllable_create (syllable_default_config 16000)) True))"
  "is_calibrating (rt_cal (syllable_set_realtime_mode (syllable_create (syllable_default_config 16000)) True))"
  "cal_sample_count (rt_cal (syllable_set_realtime_mode (syllable_create (syllable_default_config 16000)) True)) = 0"
  "target_samples (rt_cal (syllable_set_realtime_mode (syllable_create (syllable_default_config 16000)) True)) = 32000"
  "state (syllable_set_realtime_mode (syllable_create (syllable_default_config 16000)) True) = STATE_IDLE"
  by (simp_all add: syllable_set_realtime_mode_def syllable_create_def syllable_reset_def
      syllable_default_config_def start_calibration_def zero_cal_def c_int_def Let_def)

lemma two_frames_calibrating:
  assumes "realtime_mode (config d)" "is_calibrating (rt_cal d)"
      "cal_sample_count (rt_cal d) + 2 < target_samples (rt_cal d)"
  shows "syllable_process d [f1, f2] m = (front_end (front_end d f1) f2, [])"
proof -
  have 1: "process_sample d f1 m [] = (front_end d f1, [])"
    using assms by (intro process_sample_continues) simp_all
  have c: "realtime_mode (config (front_end d f1))" "is_calibrating (rt_cal (front_end d f1))"
    "cal_sample_count (rt_cal (front_end d f1)) + 1 < target_samples (rt_cal (front_end d f1))"
    using front_end_continues[of d f1] assms by simp_all
  have 2: "process_sample (front_end d f1) f2 m [] = (front_end (front_end d f1) f2, [])"
    by (rule process_sample_continues[OF c])
  show ?thesis by (simp add: syllable_process_def 1 2)
qed

theorem C3_calibration_quiescence_witness:
  "realtime_mode (config (syllable_set_realtime_mode (syllable_create (syllable_default_config 16000)) True))
   \<and> syllable_is_calibrating (fst (syllable_process
         (syllable_set_realtime_mode (syllable_create (syllable_default_config 16000)) True)
         [test_frame 0.5, test_frame 0.5] 10))
   \<and> snd (syllable_process
         (syllable_set_realtime_mode (syllable_create (syllable_default_config 16000)) True)
         [test_frame 0.5, test_frame 0.5] 10) = []
   \<and> state (fst (syllable_process
         (syllable_set_realtime_mode (syllable_create (syllable_default_config 16000)) True)
         [test_frame 0.5, test_frame 0.5] 10)) = STATE_IDLE"
proof -
  let ?d = "syllable_set_realtime_mode (syllable_create (syllable_default_config 16000)) True"
  have run: "syllable_process ?d [test_frame 0.5, test_frame 0.5] 10
               = (front_end (front_end ?d (test_frame 0.5)) (test_frame 0.5), [])"
    by (rule two_frames_calibrating) (simp_all add: realtime_start)
  have c1: "is_calibrating (rt_cal (front_end ?d (test_frame 0.5)))
     \<and> cal_sample_count (rt_cal (front_end ?d (test_frame 0.5))) = 1
     \<and> target_samples (rt_cal (front_end ?d (test_frame 0.5))) = 32000"
    using front_end_continues[of ?d "test_frame 0.5"] by (simp add: realtime_start)
  have c2: "is_calibrating (rt_cal (front_end (front_end ?d (test_frame 0.5)) (test_frame 0.5)))"
    using front_end_continues[of "front_end ?d (test_frame 0.5)" "test_frame 0.5"] c1
    by (simp add: realtime_start)
  have cal: "syllable_is_calibrating (fst (syllable_process ?d [test_frame 0.5, test_frame 0.5] 10))"
    unfolding run syllable_is_calibrating_def using c2 by simp
  show ?thesis
    using C3_calibration_quiescence[of ?d "[test_frame 0.5, test_frame 0.5]" 10] cal
      realtime_start(1,5)
    by simp
qed

section \<open>The emission loop and the required trailing context\<close>




lemma idle_buf_count:
  "state d = STATE_IDLE \<Longrightarrow> buf_count (state_machine_step (front_end d fr) fr) = buf_count d"
  by (simp add: state_machine_idle)

lemma process_sample_active:
  "\<not> (realtime_mode (config d) \<and> is_calibrating (rt_cal d)) \<Longrightarrow>
   process_sample d fr m out
     = emit_events (context_needed d) 0.9 m (state_machine_step (front_end d fr) fr) out"
  by (auto simp add: process_sample_def Let_def context_needed_def front_end_rt_cal)



lemma process_sample_count:
  assumes "\<not> (realtime_mode (config d) \<and> is_calibrating (rt_cal d))"
  shows "int (length (snd (process_sample d fr m out)))
           = int (length out)
             + max 0 (min (buf_count (state_machine_step (front_end d fr) fr) - context_needed d)
                          (m - int (length out)))"
    and "buf_count (fst (process_sample d fr m out))
           = buf_count (state_machine_step (front_end d fr) fr)
             - max 0 (min (buf_count (state_machine_step (front_end d fr) fr) - context_needed d)
                          (m - int (length out)))"
  using emit_events_count[of "context_needed d" "0.9" m "state_machine_step (front_end d fr) fr" out]
  by (simp_all add: process_sample_active[OF assms])





lemma pending_example_fields:
  "config (pending_example c) = c"
  "state (pending_example c) = STATE_IDLE"
  "buf_count (pending_example c) = 3"
  "rt_cal (pending_example c) = zero_cal"
  by (simp_all add: pending_example_def syllable_create_def syllable_reset_def Let_def)

lemma default_fields:
  "context_size (syllable_default_config 16000) = 2"
  "\<not> realtime_mode (syllable_default_config 16000)"
  by (simp_all add: syllable_default_config_def)

text \<open>
  Claim C9: every event written by \<^verbatim>\<open>syllable_process\<close> is accented exactly when its
  prominence score is above 0.9, and every event written by \<^verbatim>\<open>syllable_flush\<close> exactly
  when its prominence score is above 1.2.
\<close>

theorem C9_accent_thresholds:
  "(\<forall>e\<in>set (snd (syllable_process d input max_events)).
       is_accented e \<longleftrightarrow> prominence_score e > 0.9)
   \<and> (\<forall>e\<in>set (snd (syllable_flush d max_events)).
       is_accented e \<longleftrightarrow> prominence_score e > 1.2)"
  using process_loop_accent[of "[]" d input max_events]
    emit_events_accent[of "[]" "1.2" 0 max_events d]
  by (simp add: syllable_process_def syllable_flush_def)

lemma process_loop_single: "process_loop d [fr] m out = process_sample d fr m out"
  by (simp split: prod.split)

lemma syllable_process_single: "syllable_process d [fr] m = process_sample d fr m []"
  unfolding syllable_process_def by (rule process_loop_single)

lemma pending_process_length:
  "length (snd (syllable_process (pending_example (syllable_default_config 16000))
                  [test_frame 0.5] 10)) = 1"
proof -
  let ?d = "pending_example (syllable_default_config 16000)"
  have a: "\<not> (realtime_mode (config ?d) \<and> is_calibrating (rt_cal ?d))"
    by (simp add: pending_example_fields default_fields)
  have "int (length (snd (process_sample ?d (test_frame 0.5) 10 []))) = 1"
    using process_sample_count(1)[OF a, of "test_frame 0.5" 10 "[]"]
    by (simp add: idle_buf_count pending_example_fields context_needed_def default_fields)
  then show ?thesis
    by (simp add: syllable_process_single)
qed

lemma pending_flush_length:
  "length (snd (syllable_flush (pending_example (syllable_default_config 16000)) 10)) = 3"
proof -
  have "int (length (snd (syllable_flush (pending_example (syllable_default_config 16000)) 10))) = 3"
    using emit_events_count[of 0 "1.2" 10 "pending_example (syllable_default_config 16000)" "[]"]
    by (simp add: syllable_flush_def pending_example_fields)
  then show ?thesis by simp
qed

theorem C9_accent_thresholds_witness:
  "length (snd (syllable_process (pending_example (syllable_default_config 16000))
                  [test_frame 0.5] 10)) = 1
   \<and> (is_accented (hd (snd (syllable_process (pending_example (syllable_default_config 16000))
                               [test_frame 0.5] 10)))
        \<longleftrightarrow> prominence_score (hd (snd (syllable_process
                                (pending_example (syllable_default_config 16000))
                                [test_frame 0.5] 10))) > 0.9)
   \<and> length (snd (syllable_flush (pending_example (syllable_default_config 16000)) 10)) = 3
   \<and> (is_accented (hd (snd (syllable_flush (pending_example (syllable_default_config 16000)) 10)))
        \<longleftrightarrow> prominence_score (hd (snd (syllable_flush
                                (pending_example (syllable_default_config 16000)) 10))) > 1.2)"
proof -
  have 1: "snd (syllable_process (pending_example (syllable_default_config 16000))
                  [test_frame 0.5] 10) \<noteq> []"
    using pending_process_length by (metis length_0_conv zero_neq_one)
  have 2: "snd (syllable_flush (pending_example (syllable_default_config 16000)) 10) \<noteq> []"
    using pending_flush_length by (metis length_0_conv zero_neq_numeral)
  show ?thesis
    using C9_accent_thresholds[of "pending_example (syllable_default_config 16000)"
        "[test_frame 0.5]" 10] hd_in_set[OF 1] hd_in_set[OF 2]
      pending_process_length pending_flush_length
    by simp
qed





section \<open>The SNR threshold after calibration\<close>

text \<open>
  Every step of \<^verbatim>\<open>syllable_process\<close> commutes with a change of \<^verbatim>\<open>snr_threshold_db\<close> and
  \<^verbatim>\<open>gamma\<close>; the calibration step does so when calibration is over, which is the only
  place where either field is read.
\<close>

lemma snr_update_read [simp]:
  "config (snr_update x g d) = (config d)\<lparr>snr_threshold_db := x\<rparr>"
  "rt_cal (snr_update x g d) = (rt_cal d)\<lparr>gamma := g\<rparr>"
  "total_samples (snr_update x g d) = total_samples d"
  "has_spectral_flux (snr_update x g d) = has_spectral_flux d"
  "has_high_freq_energy (snr_update x g d) = has_high_freq_energy d"
  "has_mfcc (snr_update x g d) = has_mfcc d"
  "has_wavelet (snr_update x g d) = has_wavelet d"
  "prev_env (snr_update x g d) = prev_env d"
  "current_peak_rate (snr_update x g d) = current_peak_rate d"
  "last_zff_val (snr_update x g d) = last_zff_val d"
  "last_epoch_samples_ago (snr_update x g d) = last_epoch_samples_ago d"
  "current_f0 (snr_update x g d) = current_f0 d"
  "smoothed_f0 (snr_update x g d) = smoothed_f0 d"
  "min_f0_since_peak (snr_update x g d) = min_f0_since_peak d"
  "f0_has_risen (snr_update x g d) = f0_has_risen d"
  "f0_jump_counter (snr_update x g d) = f0_jump_counter d"
  "voicing_counter (snr_update x g d) = voicing_counter d"
  "is_voiced (snr_update x g d) = is_voiced d"
  "voiced_hold_samples (snr_update x g d) = voiced_hold_samples d"
  "current_energy (snr_update x g d) = current_energy d"
  "energy_floor (snr_update x g d) = energy_floor d"
  "prev_sample (snr_update x g d) = prev_sample d"
  "prev_prev_sample (snr_update x g d) = prev_prev_sample d"
  "current_teo (snr_update x g d) = current_teo d"
  "teo_mean (snr_update x g d) = teo_mean d"
  "teo_var (snr_update x g d) = teo_var d"
  "short_energy (snr_update x g d) = short_energy d"
  "long_energy (snr_update x g d) = long_energy d"
  "current_ler (snr_update x g d) = current_ler d"
  "adaptive_enabled (snr_update x g d) = adaptive_enabled d"
  "adaptive_mean (snr_update x g d) = adaptive_mean d"
  "adaptive_var (snr_update x g d) = adaptive_var d"
  "adaptive_alpha (snr_update x g d) = adaptive_alpha d"
  "stats_peak_rate (snr_update x g d) = stats_peak_rate d"
  "stats_spectral_flux (snr_update x g d) = stats_spectral_flux d"
  "stats_high_freq (snr_update x g d) = stats_high_freq d"
  "stats_mfcc_delta (snr_update x g d) = stats_mfcc_delta d"
  "stats_wavelet (snr_update x g d) = stats_wavelet d"
  "current_spectral_flux (snr_update x g d) = current_spectral_flux d"
  "current_high_freq_energy (snr_update x g d) = current_high_freq_energy d"
  "current_mfcc_delta (snr_update x g d) = current_mfcc_delta d"
  "current_wavelet_score (snr_update x g d) = current_wavelet_score d"
  "current_fusion_score (snr_update x g d) = current_fusion_score d"
  "state (snr_update x g d) = state d"
  "state_timer (snr_update x g d) = state_timer d"
  "max_onset_rising_samples (snr_update x g d) = max_onset_rising_samples d"
  "wip_event (snr_update x g d) = wip_event d"
  "max_peak_rate_in_syllable (snr_update x g d) = max_peak_rate_in_syllable d"
  "max_fusion_score_in_syllable (snr_update x g d) = max_fusion_score_in_syllable d"
  "energy_accum (snr_update x g d) = energy_accum d"
  "onset_timestamp (snr_update x g d) = onset_timestamp d"
  "last_event_samples (snr_update x g d) = last_event_samples d"
  "peak_sample_offset (snr_update x g d) = peak_sample_offset d"
  "current_onset_type (snr_update x g d) = current_onset_type d"
  "event_buffer (snr_update x g d) = event_buffer d"
  "buf_write_idx (snr_update x g d) = buf_write_idx d"
  "buf_read_idx (snr_update x g d) = buf_read_idx d"
  "buf_count (snr_update x g d) = buf_count d"
  by (simp_all add: snr_update_def)

lemma snr_update_write [simp]:
  "(snr_update x g d)\<lparr>total_samples := v0\<rparr> = snr_update x g (d\<lparr>total_samples := v0\<rparr>)"
  "(snr_update x g d)\<lparr>has_spectral_flux := v1\<rparr> = snr_update x g (d\<lparr>has_spectral_flux := v1\<rparr>)"
  "(snr_update x g d)\<lparr>has_high_freq_energy := v2\<rparr> = snr_update x g (d\<lparr>has_high_freq_energy := v2\<rparr>)"
  "(snr_update x g d)\<lparr>has_mfcc := v3\<rparr> = snr_update x g (d\<lparr>has_mfcc := v3\<rparr>)"
  "(snr_update x g d)\<lparr>has_wavelet := v4\<rparr> = snr_update x g (d\<lparr>has_wavelet := v4\<rparr>)"
  "(snr_update x g d)\<lparr>prev_env := v5\<rparr> = snr_update x g (d\<lparr>prev_env := v5\<rparr>)"
  "(snr_update x g d)\<lparr>current_peak_rate := v6\<rparr> = snr_update x g (d\<lparr>current_peak_rate := v6\<rparr>)"
  "(snr_update x g d)\<lparr>last_zff_val := v7\<rparr> = snr_update x g (d\<lparr>last_zff_val := v7\<rparr>)"
  "(snr_update x g d)\<lparr>last_epoch_samples_ago := v8\<rparr> = snr_update x g (d\<lparr>last_epoch_samples_ago := v8\<rparr>)"
  "(snr_update x g d)\<lparr>current_f0 := v9\<rparr> = snr_update x g (d\<lparr>current_f0 := v9\<rparr>)"
  "(snr_update x g d)\<lparr>smoothed_f0 := v10\<rparr> = snr_update x g (d\<lparr>smoothed_f0 := v10\<rparr>)"
  "(snr_update x g d)\<lparr>min_f0_since_peak := v11\<rparr> = snr_update x g (d\<lparr>min_f0_since_peak := v11\<rparr>)"
  "(snr_update x g d)\<lparr>f0_has_risen := v12\<rparr> = snr_update x g (d\<lparr>f0_has_risen := v12\<rparr>)"
  "(snr_update x g d)\<lparr>f0_jump_counter := v13\<rparr> = snr_update x g (d\<lparr>f0_jump_counter := v13\<rparr>)"
  "(snr_update x g d)\<lparr>voicing_counter := v14\<rparr> = snr_update x g (d\<lparr>voicing_counter := v14\<rparr>)"
  "(snr_update x g d)\<lparr>is_voiced := v15\<rparr> = snr_update x g (d\<lparr>is_voiced := v15\<rparr>)"
  "(snr_update x g d)\<lparr>voiced_hold_samples := v16\<rparr> = snr_update x g (d\<lparr>voiced_hold_samples := v16\<rparr>)"
  "(snr_update x g d)\<lparr>current_energy := v17\<rparr> = snr_update x g (d\<lparr>current_energy := v17\<rparr>)"
  "(snr_update x g d)\<lparr>energy_floor := v18\<rparr> = snr_update x g (d\<lparr>energy_floor := v18\<rparr>)"
  "(snr_update x g d)\<lparr>prev_sample := v19\<rparr> = snr_update x g (d\<lparr>prev_sample := v19\<rparr>)"
  "(snr_update x g d)\<lparr>prev_prev_sample := v20\<rparr> = snr_update x g (d\<lparr>prev_prev_sample := v20\<rparr>)"
  "(snr_update x g d)\<lparr>current_teo := v21\<rparr> = snr_update x g (d\<lparr>current_teo := v21\<rparr>)"
  "(snr_update x g d)\<lparr>teo_mean := v22\<rparr> = snr_update x g (d\<lparr>teo_mean := v22\<rparr>)"
  "(snr_update x g d)\<lparr>teo_var := v23\<rparr> = snr_update x g (d\<lparr>teo_var := v23\<rparr>)"
  "(snr_update x g d)\<lparr>short_energy := v24\<rparr> = snr_update x g (d\<lparr>short_energy := v24\<rparr>)"
  "(snr_update x g d)\<lparr>long_energy := v25\<rparr> = snr_update x g (d\<lparr>long_energy := v25\<rparr>)"
  "(snr_update x g d)\<lparr>current_ler := v26\<rparr> = snr_update x g (d\<lparr>current_ler := v26\<rparr>)"
  "(snr_update x g d)\<lparr>adaptive_enabled := v27\<rparr> = snr_update x g (d\<lparr>adaptive_enabled := v27\<rparr>)"
  "(snr_update x g d)\<lparr>adaptive_mean := v28\<rparr> = snr_update x g (d\<lparr>adaptive_mean := v28\<rparr>)"
  "(snr_update x g d)\<lparr>adaptive_var := v29\<rparr> = snr_update x g (d\<lparr>adaptive_var := v29\<rparr>)"
  "(snr_update x g d)\<lparr>adaptive_alpha := v30\<rparr> = snr_update x g (d\<lparr>adaptive_alpha := v30\<rparr>)"
  "(snr_update x g d)\<lparr>stats_peak_rate := v31\<rparr> = snr_update x g (d\<lparr>stats_peak_rate := v31\<rparr>)"
  "(snr_update x g d)\<lparr>stats_spectral_flux := v32\<rparr> = snr_update x g (d\<lparr>stats_spectral_flux := v32\<rparr>)"
  "(snr_update x g d)\<lparr>stats_high_freq := v33\<rparr> = snr_update x g (d\<lparr>stats_high_freq := v33\<rparr>)"
  "(snr_update x g d)\<lparr>stats_mfcc_delta := v34\<rparr> = snr_update x g (d\<lparr>stats_mfcc_delta := v34\<rparr>)"
  "(snr_update x g d)\<lparr>stats_wavelet := v35\<rparr> = snr_update x g (d\<lparr>stats_wavelet := v35\<rparr>)"
  "(snr_update x g d)\<lparr>current_spectral_flux := v36\<rparr> = snr_update x g (d\<lparr>current_spectral_flux := v36\<rparr>)"
  "(snr_update x g d)\<lparr>current_high_freq_energy := v37\<rparr> = snr_update x g (d\<lparr>current_high_freq_energy := v37\<rparr>)"
  "(snr_update x g d)\<lparr>current_mfcc_delta := v38\<rparr> = snr_update x g (d\<lparr>current_mfcc_delta := v38\<rparr>)"
  "(snr_update x g d)\<lparr>current_wavelet_score := v39\<rparr> = snr_update x g (d\<lparr>current_wavelet_score := v39\<rparr>)"
  "(snr_update x g d)\<lparr>current_fusion_score := v40\<rparr> = snr_update x g (d\<lparr>current_fusion_score := v40\<rparr>)"
  "(snr_update x g d)\<lparr>state := v41\<rparr> = snr_update x g (d\<lparr>state := v41\<rparr>)"
  "(snr_update x g d)\<lparr>state_timer := v42\<rparr> = snr_update x g (d\<lparr>state_timer := v42\<rparr>)"
  "(snr_update x g d)\<lparr>max_onset_rising_samples := v43\<rparr> = snr_update x g (d\<lparr>max_onset_rising_samples := v43\<rparr>)"
  "(snr_update x g d)\<lparr>wip_event := v44\<rparr> = snr_update x g (d\<lparr>wip_event := v44\<rparr>)"
  "(snr_update x g d)\<lparr>max_peak_rate_in_syllable := v45\<rparr> = snr_update x g (d\<lparr>max_peak_rate_in_syllable := v45\<rparr>)"
  "(snr_update x g d)\<lparr>max_fusion_score_in_syllable := v46\<rparr> = snr_update x g (d\<lparr>max_fusion_score_in_syllable := v46\<rparr>)"
  "(snr_update x g d)\<lparr>energy_accum := v47\<rparr> = snr_update x g (d\<lparr>energy_accum := v47\<rparr>)"
  "(snr_update x g d)\<lparr>onset_timestamp := v48\<rparr> = snr_update x g (d\<lparr>onset_timestamp := v48\<rparr>)"
  "(snr_update x g d)\<lparr>last_event_samples := v49\<rparr> = snr_update x g (d\<lparr>last_event_samples := v49\<rparr>)"
  "(snr_update x g d)\<lparr>peak_sample_offset := v50\<rparr> = snr_update x g (d\<lparr>peak_sample_offset := v50\<rparr>)"
  "(snr_update x g d)\<lparr>current_onset_type := v51\<rparr> = snr_update x g (d\<lparr>current_onset_type := v51\<rparr>)"
  "(snr_update x g d)\<lparr>event_buffer := v52\<rparr> = snr_update x g (d\<lparr>event_buffer := v52\<rparr>)"
  "(snr_update x g d)\<lparr>buf_write_idx := v53\<rparr> = snr_update x g (d\<lparr>buf_write_idx := v53\<rparr>)"
  "(snr_update x g d)\<lparr>buf_read_idx := v54\<rparr> = snr_update x g (d\<lparr>buf_read_idx := v54\<rparr>)"
  "(snr_update x g d)\<lparr>buf_count := v55\<rparr> = snr_update x g (d\<lparr>buf_count := v55\<rparr>)"
  by (simp_all add: snr_update_def)

lemma snr_update_if [simp]:
  "snr_update x g (if c then a else b) = (if c then snr_update x g a else snr_update x g b)"
  by simp

lemma snr_min_dist_samples [simp]:
  "min_dist_samples (c\<lparr>snr_threshold_db := x\<rparr>) = min_dist_samples c"
  by (simp add: min_dist_samples_def)

lemma snr_is_epoch_at [simp]: "is_epoch_at (snr_update x g d) z = is_epoch_at d z"
  by (simp add: is_epoch_at_def Let_def)

lemma snr_voiced_conf [simp]: "voiced_conf (snr_update x g d) = voiced_conf d"
  by (simp add: voiced_conf_def Let_def)

lemma snr_rt_features [simp]: "rt_features (snr_update x g d) = rt_features d"
  by (simp add: rt_features_def Let_def)

lemma snr_compute_fusion_realtime [simp]: "compute_fusion_realtime (snr_update x g d) = compute_fusion_realtime d"
  by (simp add: compute_fusion_realtime_def Let_def)

lemma snr_fusion_w_total [simp]: "fusion_w_total (snr_update x g d) = fusion_w_total d"
  by (simp add: fusion_w_total_def Let_def)

lemma snr_fusion_weighted_avg [simp]: "fusion_weighted_avg (snr_update x g d) a b c e f v = fusion_weighted_avg d a b c e f v"
  by (simp add: fusion_weighted_avg_def Let_def)

lemma snr_fusion_max_feature [simp]: "fusion_max_feature (snr_update x g d) a b c e f = fusion_max_feature d a b c e f"
  by (simp add: fusion_max_feature_def Let_def)

lemma snr_fusion_avg_confidence [simp]: "fusion_avg_confidence (snr_update x g d) a b c e = fusion_avg_confidence d a b c e"
  by (simp add: fusion_avg_confidence_def Let_def)

lemma snr_compute_fusion_score [simp]: "compute_fusion_score (snr_update x g d) = compute_fusion_score d"
  by (simp add: compute_fusion_score_def Let_def)

lemma snr_determine_onset_type [simp]: "determine_onset_type (snr_update x g d) = determine_onset_type d"
  by (simp add: determine_onset_type_def Let_def)

lemma snr_peak_threshold [simp]: "peak_threshold (snr_update x g d) = peak_threshold d"
  by (simp add: peak_threshold_def Let_def)

lemma snr_init_wip_event [simp]: "init_wip_event (snr_update x g d) p e t = init_wip_event d p e t"
  by (simp add: init_wip_event_def Let_def)

lemma snr_f0_allows_new_onset [simp]: "f0_allows_new_onset (snr_update x g d) fr = f0_allows_new_onset d fr"
  by (simp add: f0_allows_new_onset_def Let_def)

lemma snr_energy_gate_passed [simp]: "energy_gate_passed (snr_update x g d) = energy_gate_passed d"
  by (simp add: energy_gate_passed_def Let_def)

lemma snr_onset_trigger [simp]: "onset_trigger (snr_update x g d) p t1 t2 = onset_trigger d p t1 t2"
  by (simp add: onset_trigger_def Let_def)

lemma snr_nucleus_ends [simp]: "nucleus_ends (snr_update x g d) e t = nucleus_ends d e t"
  by (simp add: nucleus_ends_def Let_def)

lemma snr_calculate_prominence [simp]: "calculate_prominence (snr_update x g d) i = calculate_prominence d i"
  by (simp add: calculate_prominence_def Let_def)

lemma snr_smooth_f0 [simp]: "smooth_f0 (snr_update x g d) r = snr_update x g (smooth_f0 d r)"
  by (simp add: smooth_f0_def Let_def split: option.split)

lemma snr_zff_step [simp]: "zff_step (snr_update x g d) z = snr_update x g (zff_step d z)"
  by (simp add: zff_step_def Let_def split: option.split)

lemma snr_voicing_step [simp]: "voicing_step (snr_update x g d) e = snr_update x g (voicing_step d e)"
  by (simp add: voicing_step_def Let_def split: option.split)

lemma snr_f0_rise_step [simp]: "f0_rise_step (snr_update x g d) = snr_update x g (f0_rise_step d)"
  by (simp add: f0_rise_step_def Let_def split: option.split)

lemma snr_peak_rate_step [simp]: "peak_rate_step (snr_update x g d) e = snr_update x g (peak_rate_step d e)"
  by (simp add: peak_rate_step_def Let_def split: option.split)

lemma snr_teo_step [simp]: "teo_step (snr_update x g d) s = snr_update x g (teo_step d s)"
  by (simp add: teo_step_def Let_def split: option.split)

lemma snr_ler_step [simp]: "ler_step (snr_update x g d) s = snr_update x g (ler_step d s)"
  by (simp add: ler_step_def Let_def split: option.split)

lemma snr_peak_rate_stats_step [simp]: "peak_rate_stats_step (snr_update x g d) = snr_update x g (peak_rate_stats_step d)"
  by (simp add: peak_rate_stats_step_def Let_def split: option.split)

lemma snr_spectral_flux_step [simp]: "spectral_flux_step (snr_update x g d) fr = snr_update x g (spectral_flux_step d fr)"
  by (simp add: spectral_flux_step_def Let_def split: option.split)

lemma snr_high_freq_step [simp]: "high_freq_step (snr_update x g d) fr = snr_update x g (high_freq_step d fr)"
  by (simp add: high_freq_step_def Let_def split: option.split)

lemma snr_mfcc_step [simp]: "mfcc_step (snr_update x g d) fr = snr_update x g (mfcc_step d fr)"
  by (simp add: mfcc_step_def Let_def split: option.split)

lemma snr_wavelet_step [simp]: "wavelet_step (snr_update x g d) fr = snr_update x g (wavelet_step d fr)"
  by (simp add: wavelet_step_def Let_def split: option.split)

lemma snr_features_step [simp]: "features_step (snr_update x g d) fr = snr_update x g (features_step d fr)"
  by (simp add: features_step_def Let_def split: option.split)

lemma snr_fusion_step [simp]: "fusion_step (snr_update x g d) = snr_update x g (fusion_step d)"
  by (simp add: fusion_step_def Let_def split: option.split)

lemma snr_adaptive_step [simp]: "adaptive_step (snr_update x g d) = snr_update x g (adaptive_step d)"
  by (simp add: adaptive_step_def Let_def split: option.split)

lemma snr_idle_step [simp]: "idle_step (snr_update x g d) fr p e t1 t2 = snr_update x g (idle_step d fr p e t1 t2)"
  by (simp add: idle_step_def Let_def split: option.split)

lemma snr_track_peak_rate [simp]: "track_peak_rate (snr_update x g d) p = snr_update x g (track_peak_rate d p)"
  by (simp add: track_peak_rate_def Let_def split: option.split)

lemma snr_track_fusion [simp]: "track_fusion (snr_update x g d) = snr_update x g (track_fusion d)"
  by (simp add: track_fusion_def Let_def split: option.split)

lemma snr_track_spectral_flux [simp]: "track_spectral_flux (snr_update x g d) = snr_update x g (track_spectral_flux d)"
  by (simp add: track_spectral_flux_def Let_def split: option.split)

lemma snr_track_high_freq [simp]: "track_high_freq (snr_update x g d) = snr_update x g (track_high_freq d)"
  by (simp add: track_high_freq_def Let_def split: option.split)

lemma snr_track_mfcc [simp]: "track_mfcc (snr_update x g d) = snr_update x g (track_mfcc d)"
  by (simp add: track_mfcc_def Let_def split: option.split)

lemma snr_track_wavelet [simp]: "track_wavelet (snr_update x g d) = snr_update x g (track_wavelet d)"
  by (simp add: track_wavelet_def Let_def split: option.split)

lemma snr_track_maxima [simp]: "track_maxima (snr_update x g d) p = snr_update x g (track_maxima d p)"
  by (simp add: track_maxima_def Let_def split: option.split)

lemma snr_onset_rising_step [simp]: "onset_rising_step (snr_update x g d) p e = snr_update x g (onset_rising_step d p e)"
  by (simp add: onset_rising_step_def Let_def split: option.split)

lemma snr_push_event [simp]: "push_event (snr_update x g d) = snr_update x g (push_event d)"
  by (simp add: push_event_def Let_def split: option.split)

lemma snr_nucleus_step [simp]: "nucleus_step (snr_update x g d) e t = snr_update x g (nucleus_step d e t)"
  by (simp add: nucleus_step_def Let_def split: option.split)

lemma snr_cooldown_step [simp]: "cooldown_step (snr_update x g d) = snr_update x g (cooldown_step d)"
  by (simp add: cooldown_step_def Let_def split: option.split)

lemma snr_set_delta_f0 [simp]: "set_delta_f0 (snr_update x g d) i v = snr_update x g (set_delta_f0 d i v)"
  by (simp add: set_delta_f0_def Let_def split: option.split)

lemma snr_calculate_delta_f0 [simp]: "calculate_delta_f0 (snr_update x g d) i = snr_update x g (calculate_delta_f0 d i)"
  by (simp add: calculate_delta_f0_def Let_def split: option.split)

lemma snr_calibration_step:
  "\<not> is_calibrating (rt_cal d) \<Longrightarrow>
   calibration_step (snr_update x g d) = snr_update x g (calibration_step d)"
  by (simp add: calibration_step_def)

lemma snr_front_end:
  "\<not> is_calibrating (rt_cal d) \<Longrightarrow> front_end (snr_update x g d) fr = snr_update x g (front_end d fr)"
  by (simp add: front_end_def Let_def snr_calibration_step)

lemma snr_state_machine_step [simp]:
  "state_machine_step (snr_update x g d) fr = snr_update x g (state_machine_step d fr)"
  by (cases "state d") (simp_all add: state_machine_step_def Let_def)

lemma snr_emit_one [simp]:
  "emit_one a (snr_update x g d) = (snr_update x g (fst (emit_one a d)), snd (emit_one a d))"
  by (simp add: emit_one_def Let_def)

lemma snr_emit_events:
  "emit_events cn a m (snr_update x g d) out
     = (snr_update x g (fst (emit_events cn a m d out)), snd (emit_events cn a m d out))"
proof (induction cn a m d out rule: emit_events.induct)
  case (1 cn a m d out)
  show ?case
  proof (cases "buf_count d > cn \<and> int (length out) < m")
    case True
    then have "emit_events cn a m (snr_update x g d) out
               = emit_events cn a m (snr_update x g (fst (emit_one a d))) (out @ [snd (emit_one a d)])"
      by (simp add: emit_events_step)
    also have "\<dots> = (snr_update x g (fst (emit_events cn a m (fst (emit_one a d))
                                            (out @ [snd (emit_one a d)]))),
                      snd (emit_events cn a m (fst (emit_one a d)) (out @ [snd (emit_one a d)])))"
      using 1 True by simp
    also have "\<dots> = (snr_update x g (fst (emit_events cn a m d out)), snd (emit_events cn a m d out))"
      using True by (simp add: emit_events_step)
    finally show ?thesis .
  next
    case False
    then show ?thesis by (simp add: emit_events_stop)
  qed
qed

lemma snr_process_sample:
  assumes "\<not> is_calibrating (rt_cal d)"
  shows "process_sample (snr_update x g d) fr m out
           = (snr_update x g (fst (process_sample d fr m out)), snd (process_sample d fr m out))"
proof -
  have nc: "\<not> is_calibrating (rt_cal (front_end d fr))"
    using assms by (simp add: front_end_rt_cal)
  show ?thesis
    using nc by (simp add: process_sample_def Let_def snr_front_end[OF assms] snr_emit_events)
qed

lemma snr_process_loop:
  "\<not> is_calibrating (rt_cal d) \<Longrightarrow>
   process_loop (snr_update x g d) frs m out
     = (snr_update x g (fst (process_loop d frs m out)), snd (process_loop d frs m out))"
proof (induction frs arbitrary: d out)
  case Nil
  then show ?case by simp
next
  case (Cons fr frs)
  obtain d' out' where ps: "process_sample d fr m out = (d', out')"
    by (cases "process_sample d fr m out")
  have "rt_cal d' = rt_cal d"
    using process_sample_not_calibrating[OF Cons.prems, of fr m out] ps by simp
  then have nc: "\<not> is_calibrating (rt_cal d')" using Cons.prems by simp
  show ?case
    using Cons.IH[OF nc, of out'] by (simp add: snr_process_sample[OF Cons.prems] ps)
qed

lemma set_snr_threshold_calibrated:
  "realtime_mode (config d) \<Longrightarrow> \<not> is_calibrating (rt_cal d) \<Longrightarrow>
   syllable_set_snr_threshold d x = snr_update x (10 powr (x / 10)) d"
  by (simp add: syllable_set_snr_threshold_def snr_update_def Let_def)

lemma syllable_process_rt_cal:
  "\<not> is_calibrating (rt_cal d) \<Longrightarrow> rt_cal (fst (syllable_process d input m)) = rt_cal d"
  by (simp add: syllable_process_def process_loop_not_calibrating)

lemma syllable_flush_rt_cal: "rt_cal (fst (syllable_flush d m)) = rt_cal d"
  by (simp add: syllable_flush_def)

lemma run_calls_rt_cal:
  "\<not> is_calibrating (rt_cal d) \<Longrightarrow> rt_cal (fst (run_calls d cs)) = rt_cal d"
proof (induction cs arbitrary: d)
  case Nil
  then show ?case by simp
next
  case (Cons c cs)
  show ?case
  proof (cases c)
    case (Process input m)
    have e: "rt_cal (fst (syllable_process d input m)) = rt_cal d"
      by (rule syllable_process_rt_cal[OF Cons.prems])
    then have "\<not> is_calibrating (rt_cal (fst (syllable_process d input m)))"
      using Cons.prems by simp
    from Cons.IH[OF this] e show ?thesis by (simp add: Process Let_def)
  next
    case (Flush m)
    have e: "rt_cal (fst (syllable_flush d m)) = rt_cal d" by (rule syllable_flush_rt_cal)
    then have "\<not> is_calibrating (rt_cal (fst (syllable_flush d m)))"
      using Cons.prems by simp
    from Cons.IH[OF this] e show ?thesis by (simp add: Flush Let_def)
  qed
qed

lemma snr_syllable_process:
  "\<not> is_calibrating (rt_cal d) \<Longrightarrow>
   syllable_process (snr_update x g d) input m
     = (snr_update x g (fst (syllable_process d input m)), snd (syllable_process d input m))"
  by (simp add: syllable_process_def snr_process_loop)

lemma snr_syllable_flush:
  "syllable_flush (snr_update x g d) m
     = (snr_update x g (fst (syllable_flush d m)), snd (syllable_flush d m))"
  by (simp add: syllable_flush_def snr_emit_events)

lemma snr_run_calls:
  "\<not> is_calibrating (rt_cal d) \<Longrightarrow>
   run_calls (snr_update x g d) cs
     = (snr_update x g (fst (run_calls d cs)), snd (run_calls d cs))"
proof (induction cs arbitrary: d)
  case Nil
  then show ?case by simp
next
  case (Cons c cs)
  show ?case
  proof (cases c)
    case (Process input m)
    have "\<not> is_calibrating (rt_cal (fst (syllable_process d input m)))"
      using Cons.prems by (simp add: syllable_process_rt_cal)
    from Cons.IH[OF this] show ?thesis
      by (simp add: Process Let_def snr_syllable_process[OF Cons.prems])
  next
    case (Flush m)
    have "\<not> is_calibrating (rt_cal (fst (syllable_flush d m)))"
      using Cons.prems by (simp add: syllable_flush_rt_cal)
    from Cons.IH[OF this] show ?thesis
      by (simp add: Flush Let_def snr_syllable_flush)
  qed
qed

text \<open>
  Claim C10: on a detector in realtime mode whose calibration is over,
  \<^verbatim>\<open>syllable_set_snr_threshold\<close> changes \<^verbatim>\<open>snr_threshold_db\<close> and \<^verbatim>\<open>gamma\<close> and nothing else; the
  six thresholds stay as calibrated, and every later sequence of \<^verbatim>\<open>syllable_process\<close> and
  \<^verbatim>\<open>syllable_flush\<close> calls writes the same events as it would have without the call, the
  thresholds still being the calibrated ones at its end.
\<close>

theorem C10_snr_threshold_frame:
  assumes "realtime_mode (config d)" and "\<not> is_calibrating (rt_cal d)"
  shows "syllable_set_snr_threshold d x
           = d\<lparr>config := (config d)\<lparr>snr_threshold_db := x\<rparr>,
                rt_cal := (rt_cal d)\<lparr>gamma := 10 powr (x / 10)\<rparr>\<rparr>
         \<and> thresh (rt_cal (syllable_set_snr_threshold d x)) = thresh (rt_cal d)
         \<and> snd (syllable_process (syllable_set_snr_threshold d x) input m)
             = snd (syllable_process d input m)
         \<and> snd (run_calls (syllable_set_snr_threshold d x) calls) = snd (run_calls d calls)
         \<and> thresh (rt_cal (fst (run_calls (syllable_set_snr_threshold d x) calls)))
             = thresh (rt_cal d)"
proof -
  have s: "syllable_set_snr_threshold d x = snr_update x (10 powr (x / 10)) d"
    by (rule set_snr_threshold_calibrated[OF assms])
  show ?thesis
    unfolding s
    using snr_syllable_process[OF assms(2), of x "10 powr (x / 10)" input m]
      snr_run_calls[OF assms(2), of x "10 powr (x / 10)" calls]
      run_calls_rt_cal[OF assms(2), of calls]
    by (simp add: snr_update_def)
qed

lemma finalized_pending_fields:
  "config (finalize_rt_calibration (pending_example c)) = c"
  "state (finalize_rt_calibration (pending_example c)) = STATE_IDLE"
  "buf_count (finalize_rt_calibration (pending_example c)) = 3"
  "\<not> is_calibrating (rt_cal (finalize_rt_calibration (pending_example c)))"
  "gamma (rt_cal (finalize_rt_calibration (pending_example c))) = 10 powr (snr_threshold_db c / 10)"
  by (simp_all add: finalize_rt_calibration_def Let_def pending_example_fields)

lemma finalized_pending_process:
  "length (snd (syllable_process
      (finalize_rt_calibration (pending_example ((syllable_default_config 16000)\<lparr>realtime_mode := True\<rparr>)))
      [test_frame 0.5] 10)) = 3"
proof -
  let ?d = "finalize_rt_calibration (pending_example ((syllable_default_config 16000)\<lparr>realtime_mode := True\<rparr>))"
  have a: "\<not> (realtime_mode (config ?d) \<and> is_calibrating (rt_cal ?d))"
    by (simp add: finalized_pending_fields)
  have "int (length (snd (process_sample ?d (test_frame 0.5) 10 []))) = 3"
    using process_sample_count(1)[OF a, of "test_frame 0.5" 10 "[]"]
    by (simp add: idle_buf_count finalized_pending_fields context_needed_def)
  then show ?thesis by (simp add: syllable_process_single)
qed

theorem C10_snr_threshold_frame_witness:
  "realtime_mode (config (finalize_rt_calibration
      (pending_example ((syllable_default_config 16000)\<lparr>realtime_mode := True\<rparr>))))
   \<and> is_calibrating (rt_cal (finalize_rt_calibration
      (pending_example ((syllable_default_config 16000)\<lparr>realtime_mode := True\<rparr>)))) = False
   \<and> snr_threshold_db (config (syllable_set_snr_threshold (finalize_rt_calibration
      (pending_example ((syllable_default_config 16000)\<lparr>realtime_mode := True\<rparr>))) 12)) = 12
   \<and> gamma (rt_cal (syllable_set_snr_threshold (finalize_rt_calibration
      (pending_example ((syllable_default_config 16000)\<lparr>realtime_mode := True\<rparr>))) 12))
       = 10 powr (12 / 10)
   \<and> gamma (rt_cal (finalize_rt_calibration
      (pending_example ((syllable_default_config 16000)\<lparr>realtime_mode := True\<rparr>))))
       = 10 powr (6 / 10)
   \<and> thresh (rt_cal (syllable_set_snr_threshold (finalize_rt_calibration
      (pending_example ((syllable_default_config 16000)\<lparr>realtime_mode := True\<rparr>))) 12))
       = thresh (rt_cal (finalize_rt_calibration
      (pending_example ((syllable_default_config 16000)\<lparr>realtime_mode := True\<rparr>))))
   \<and> snd (syllable_process (syllable_set_snr_threshold (finalize_rt_calibration
      (pending_example ((syllable_default_config 16000)\<lparr>realtime_mode := True\<rparr>))) 12)
          [test_frame 0.5] 10)
       = snd (syllable_process (finalize_rt_calibration
      (pending_example ((syllable_default_config 16000)\<lparr>realtime_mode := True\<rparr>)))
          [test_frame 0.5] 10)
   \<and> length (snd (syllable_process (syllable_set_snr_threshold (finalize_rt_calibration
      (pending_example ((syllable_default_config 16000)\<lparr>realtime_mode := True\<rparr>))) 12)
          [test_frame 0.5] 10)) = 3
   \<and> snd (run_calls (syllable_set_snr_threshold (finalize_rt_calibration
      (pending_example ((syllable_default_config 16000)\<lparr>realtime_mode := True\<rparr>))) 12)
          [Process [test_frame 0.5] 1, Flush 10])
       = snd (run_calls (finalize_rt_calibration
      (pending_example ((syllable_default_config 16000)\<lparr>realtime_mode := True\<rparr>)))
          [Process [test_frame 0.5] 1, Flush 10])"
proof -
  let ?d = "finalize_rt_calibration
      (pending_example ((syllable_default_config 16000)\<lparr>realtime_mode := True\<rparr>))"
  have rt: "realtime_mode (config ?d)" by (simp add: finalized_pending_fields)
  have nc: "\<not> is_calibrating (rt_cal ?d)" by (simp add: finalized_pending_fields)
  have g: "gamma (rt_cal ?d) = 10 powr (6 / 10)"
    by (simp add: finalized_pending_fields syllable_default_config_def)
  note t = C10_snr_threshold_frame[OF rt nc, of 12 "[test_frame 0.5]" 10
      "[Process [test_frame 0.5] 1, Flush 10]"]
  have t1: "syllable_set_snr_threshold ?d 12
              = ?d\<lparr>config := (config ?d)\<lparr>snr_threshold_db := 12\<rparr>,
                   rt_cal := (rt_cal ?d)\<lparr>gamma := 10 powr (12 / 10)\<rparr>\<rparr>"
    using t by blast
  have t2: "thresh (rt_cal (syllable_set_snr_threshold ?d 12)) = thresh (rt_cal ?d)"
    using t by blast
  have t3: "snd (syllable_process (syllable_set_snr_threshold ?d 12) [test_frame 0.5] 10)
              = snd (syllable_process ?d [test_frame 0.5] 10)"
    using t by blast
  have t4: "snd (run_calls (syllable_set_snr_threshold ?d 12) [Process [test_frame 0.5] 1, Flush 10])
              = snd (run_calls ?d [Process [test_frame 0.5] 1, Flush 10])"
    using t by blast
  have c: "snr_threshold_db (config (syllable_set_snr_threshold ?d 12)) = 12"
    unfolding t1 by simp
  have g2: "gamma (rt_cal (syllable_set_snr_threshold ?d 12)) = 10 powr (12 / 10)"
    unfolding t1 by simp
  have nc': "is_calibrating (rt_cal ?d) = False" using nc by simp
  have l: "length (snd (syllable_process (syllable_set_snr_threshold ?d 12)
                          [test_frame 0.5] 10)) = 3"
    unfolding t3 by (rule finalized_pending_process)
  show ?thesis
    by (intro conjI) (fact rt, fact nc', fact c, fact g2, fact g, fact t2, fact t3, fact l, fact t4)
qed

end
